theory Spec2Isabelle
  imports Main "HOL-Library.Word"
begin

unbundle bit_operations_syntax

section \<open>Python primitives used by the simulator\<close>

text \<open>
  Python integers are unbounded, so every integer of the source is an \<open>int\<close>:
  \<open>x >> n\<close> is \<open>drop_bit n x\<close>, \<open>x << n\<close> is \<open>push_bit n x\<close>, and \<open>&\<close>, \<open>|\<close> are
  \<open>AND\<close>, \<open>OR\<close> on \<open>int\<close> (two's complement of unbounded width, as in Python).
  Every exception the source can raise is a value of \<open>error\<close>.
\<close>

datatype error = KeyError | IndexError | ValueError | StructError

definition then_do :: "error + 'a \<Rightarrow> ('a \<Rightarrow> error + 'b) \<Rightarrow> error + 'b" where
  "then_do m f = (case m of Inl e \<Rightarrow> Inl e | Inr v \<Rightarrow> f v)"

text \<open>\<open>x >> n\<close> and \<open>x << n\<close>: a negative shift count raises ValueError.\<close>

definition py_rshift :: "int \<Rightarrow> int \<Rightarrow> error + int" where
  "py_rshift x n = (if n < 0 then Inl ValueError else Inr (drop_bit (nat n) x))"

definition py_lshift :: "int \<Rightarrow> int \<Rightarrow> error + int" where
  "py_lshift x n = (if n < 0 then Inl ValueError else Inr (push_bit (nat n) x))"

text \<open>\<open>d[k]\<close> on a dict: a missing key raises KeyError.\<close>

definition dict_item :: "(string \<rightharpoonup> int) \<Rightarrow> string \<Rightarrow> error + int" where
  "dict_item d k = (case d k of None \<Rightarrow> Inl KeyError | Some v \<Rightarrow> Inr v)"

text \<open>
  \<open>xs[i]\<close> and \<open>xs[i] = v\<close> on a list: an index in \<open>-len .. -1\<close> counts from the end,
  anything outside \<open>-len .. len-1\<close> raises IndexError.
\<close>

definition list_pos :: "'a list \<Rightarrow> int \<Rightarrow> nat option" where
  "list_pos xs i =
     (if 0 \<le> i \<and> i < int (length xs) then Some (nat i)
      else if i < 0 \<and> - int (length xs) \<le> i then Some (nat (int (length xs) + i))
      else None)"

definition list_item :: "'a list \<Rightarrow> int \<Rightarrow> error + 'a" where
  "list_item xs i = (case list_pos xs i of None \<Rightarrow> Inl IndexError | Some p \<Rightarrow> Inr (xs ! p))"

definition list_store :: "'a list \<Rightarrow> int \<Rightarrow> 'a \<Rightarrow> error + 'a list" where
  "list_store xs i v = (case list_pos xs i of None \<Rightarrow> Inl IndexError | Some p \<Rightarrow> Inr (xs[p := v]))"

text \<open>
  \<open>struct.pack('<I', v)\<close>: four little-endian bytes, struct.error unless \<open>0 \<le> v < 2^32\<close>.
  \<open>struct.unpack('<I', bs)[0]\<close> and \<open>struct.unpack('<i', bs)[0]\<close>: struct.error unless
  \<open>bs\<close> has exactly four bytes; the second reads the bytes as two's complement.
\<close>

definition struct_pack_I :: "int \<Rightarrow> error + 8 word list" where
  "struct_pack_I v =
     (if 0 \<le> v \<and> v < 2 ^ 32
      then Inr [word_of_int v, word_of_int (drop_bit 8 v),
                word_of_int (drop_bit 16 v), word_of_int (drop_bit 24 v)]
      else Inl StructError)"

definition struct_unpack_I :: "8 word list \<Rightarrow> error + int" where
  "struct_unpack_I bs =
     (case bs of
        [b0, b1, b2, b3] \<Rightarrow>
          Inr (uint b0 + 256 * uint b1 + 65536 * uint b2 + 16777216 * uint b3)
      | _ \<Rightarrow> Inl StructError)"

definition struct_unpack_i :: "8 word list \<Rightarrow> error + int" where
  "struct_unpack_i bs =
     then_do (struct_unpack_I bs) (\<lambda>u. Inr (if u < 2 ^ 31 then u else u - 2 ^ 32))"

text \<open>\<open>m[a:b]\<close> for \<open>0 \<le> a \<le> b\<close> (never raises), and \<open>m[a:b] = bs\<close> on a bytearray.\<close>

definition slice :: "'a list \<Rightarrow> nat \<Rightarrow> nat \<Rightarrow> 'a list" where
  "slice m a b = take (b - a) (drop a m)"

definition slice_store :: "'a list \<Rightarrow> nat \<Rightarrow> nat \<Rightarrow> 'a list \<Rightarrow> 'a list" where
  "slice_store m a b bs = take a m @ bs @ drop (max a b) m"

section \<open>The decoder (arm\_decoder.py)\<close>

text \<open>
  \<open>ARMInstruction\<close>: the fields \<open>__init__\<close> creates. \<open>instruction_type\<close>, \<open>opcode\<close> and
  \<open>condition_code\<close> start as Python's \<open>None\<close>; \<open>operands\<close> is a dict from key names to
  integers. The attributes \<open>rd\<close>, \<open>rn\<close>, \<open>rm\<close>, \<open>rs\<close>, \<open>operand2\<close>, \<open>l_bit\<close>, \<open>offset\<close> that
  \<open>decode\<close> also sets on the object are copies of what it stores in \<open>operands\<close> and are
  read by nothing else; they are left out.
\<close>

record ARMInstruction =
  binary_word :: int
  instruction_type :: "string option"
  opcode :: "int option"
  operands :: "string \<rightharpoonup> int"
  condition_code :: "int option"
  set_flags :: bool

definition ARMInstruction_init :: "int \<Rightarrow> ARMInstruction" where
  "ARMInstruction_init w =
     \<lparr>binary_word = w, instruction_type = None, opcode = None, operands = Map.empty,
      condition_code = None, set_flags = False\<rparr>"

text \<open>
  The chain \<open>if shift_type_bits == 0b00: ... elif ... == 0b11: ...\<close> (lines 80-87 and
  100-107). It has no \<open>else\<close>: when no test matches, \<open>instruction_type\<close> keeps its value.
\<close>

definition shift_alias :: "int \<Rightarrow> ARMInstruction \<Rightarrow> ARMInstruction" where
  "shift_alias shift_type_bits self =
     (if shift_type_bits = 0 then self\<lparr>instruction_type := Some ''LSL''\<rparr>
      else if shift_type_bits = 1 then self\<lparr>instruction_type := Some ''LSR''\<rparr>
      else if shift_type_bits = 2 then self\<lparr>instruction_type := Some ''ASR''\<rparr>
      else if shift_type_bits = 3 then self\<lparr>instruction_type := Some ''ROR''\<rparr>
      else self)"

text \<open>
  The opcode table (lines 46-60 and 115-129); \<open>unknown\<close> is the name the final \<open>else\<close>
  assigns, the only difference between the two copies.
\<close>

definition opcode_kind :: "string \<Rightarrow> ARMInstruction \<Rightarrow> ARMInstruction" where
  "opcode_kind unknown self =
     (if opcode self = Some 4 then self\<lparr>instruction_type := Some ''ADD''\<rparr>
      else if opcode self = Some 2 then self\<lparr>instruction_type := Some ''SUB''\<rparr>
      else if opcode self = Some 13 then self\<lparr>instruction_type := Some ''MOV''\<rparr>
      else if opcode self = Some 10 then self\<lparr>instruction_type := Some ''CMP'', set_flags := True\<rparr>
      else if opcode self = Some 0 then self\<lparr>instruction_type := Some ''AND''\<rparr>
      else if opcode self = Some 12 then self\<lparr>instruction_type := Some ''ORR''\<rparr>
      else self\<lparr>instruction_type := Some unknown\<rparr>)"

text \<open>Lines 131-135: SUB under condition NE becomes SUBNE, ADD under EQ becomes ADDEQ.\<close>

definition condition_rename :: "ARMInstruction \<Rightarrow> ARMInstruction" where
  "condition_rename self =
     (if condition_code self = Some 1 \<and> instruction_type self = Some ''SUB''
      then self\<lparr>instruction_type := Some ''SUBNE''\<rparr>
      else if condition_code self = Some 0 \<and> instruction_type self = Some ''ADD''
      then self\<lparr>instruction_type := Some ''ADDEQ''\<rparr>
      else self)"

text \<open>
  Lines 30-136, the data-processing branch of \<open>decode\<close>. The rotate of the immediate is
  \<open>(imm8 >> (2*r)) | (imm8 << (32 - 2*r)) & 0xFFFFFFFF\<close>; in Python \<open>&\<close> binds tighter than
  \<open>|\<close>, so the mask applies to the left-shifted part only.
\<close>

definition decode_data_processing :: "ARMInstruction \<Rightarrow> error + ARMInstruction" where
  "decode_data_processing self0 =
     (let w = binary_word self0;
          opc = drop_bit 21 w AND 0xF;
          rn = drop_bit 16 w AND 0xF;
          rd = drop_bit 12 w AND 0xF;
          self = self0\<lparr>set_flags := (drop_bit 20 w AND 0x1 \<noteq> 0), opcode := Some opc\<rparr>
      in
      if drop_bit 25 w AND 0x1 \<noteq> 0 then
        (let rotate_imm = drop_bit 8 w AND 0xF;
             imm8 = w AND 0xFF
         in then_do (py_rshift imm8 (2 * rotate_imm)) (\<lambda>lo.
            then_do (py_lshift imm8 (32 - 2 * rotate_imm)) (\<lambda>hi.
              let operand2 = lo OR (hi AND 0xFFFFFFFF) in
              Inr (condition_rename (opcode_kind ''UNKNOWN_DATA_PROCESSING_IMM''
                (self\<lparr>operands := [''rd'' \<mapsto> rd, ''rn'' \<mapsto> rn, ''operand2'' \<mapsto> operand2]\<rparr>))))))
      else
        (let rm = w AND 0xF;
             shift_type_bits = drop_bit 5 w AND 0b11
         in
         if drop_bit 4 w AND 0x1 = 0 then
           (let shift_amount = drop_bit 7 w AND 0b11111 in
            if opc = 13 \<and> shift_type_bits = 3 \<and> rn = 0 \<and> rm = rd then
              Inr (self\<lparr>instruction_type := Some ''ROR'',
                        operands := [''rd'' \<mapsto> rd, ''rm'' \<mapsto> rm, ''shift_amount'' \<mapsto> shift_amount,
                                     ''shift_type'' \<mapsto> shift_type_bits, ''rn'' \<mapsto> 0]\<rparr>)
            else if rn = 0 \<and> opc = 13 then
              Inr ((shift_alias shift_type_bits self)
                     \<lparr>operands := [''rd'' \<mapsto> rd, ''rm'' \<mapsto> rm, ''shift_amount'' \<mapsto> shift_amount,
                                  ''shift_type'' \<mapsto> shift_type_bits, ''rn'' \<mapsto> 0]\<rparr>)
            else
              Inr (condition_rename (opcode_kind ''UNKNOWN_DATA_PROCESSING_REG''
                (self\<lparr>operands := [''rd'' \<mapsto> rd, ''rn'' \<mapsto> rn, ''rm'' \<mapsto> rm,
                                     ''shift_amount'' \<mapsto> shift_amount,
                                     ''shift_type'' \<mapsto> shift_type_bits]\<rparr>))))
         else
           (let rs = drop_bit 8 w AND 0xF in
            if rn = 0 \<and> opc = 13 then
              Inr ((shift_alias shift_type_bits self)
                     \<lparr>operands := [''rd'' \<mapsto> rd, ''rm'' \<mapsto> rm, ''rs'' \<mapsto> rs,
                                  ''shift_type'' \<mapsto> shift_type_bits, ''rn'' \<mapsto> 0]\<rparr>)
            else
              Inr (condition_rename (opcode_kind ''UNKNOWN_DATA_PROCESSING_REG''
                (self\<lparr>operands := [''rd'' \<mapsto> rd, ''rn'' \<mapsto> rn, ''rm'' \<mapsto> rm, ''rs'' \<mapsto> rs,
                                     ''shift_type'' \<mapsto> shift_type_bits]\<rparr>))))))"

text \<open>\<open>ARMInstruction.decode\<close>: the tests in the order of the source, first match returns.\<close>

definition decode :: "ARMInstruction \<Rightarrow> error + ARMInstruction" where
  "decode self0 =
     (let w = binary_word self0;
          self = self0\<lparr>condition_code := Some (drop_bit 28 w AND 0xF)\<rparr>
      in
      if drop_bit 24 w AND 0xF = 0 \<and> drop_bit 4 w AND 0xF = 9 then
        Inr (self\<lparr>instruction_type := Some ''MUL'',
                  set_flags := (drop_bit 20 w AND 0x1 \<noteq> 0),
                  operands := [''rd'' \<mapsto> drop_bit 16 w AND 0xF, ''rm'' \<mapsto> w AND 0xF,
                               ''rs'' \<mapsto> drop_bit 8 w AND 0xF]\<rparr>)
      else if drop_bit 26 w AND 0b11 = 0 then decode_data_processing self
      else if drop_bit 26 w AND 0b11 = 1 then
        (let l_bit = drop_bit 20 w AND 0x1;
             rn = drop_bit 16 w AND 0xF;
             rd = drop_bit 12 w AND 0xF;
             offset = w AND 0xFFF
         in Inr (self\<lparr>instruction_type := (if l_bit = 1 then Some ''LDR'' else Some ''STR''),
                      operands := [''rd'' \<mapsto> rd, ''rn'' \<mapsto> rn, ''offset'' \<mapsto> offset]\<rparr>))
      else if drop_bit 25 w AND 0b111 = 5 then
        (let l_bit = drop_bit 24 w AND 0x1;
             offset = w AND 0xFFFFFF
         in Inr (self\<lparr>instruction_type := (if l_bit = 1 then Some ''BL'' else Some ''B''),
                      operands := [''offset'' \<mapsto> offset]\<rparr>))
      else Inr (self\<lparr>instruction_type := Some ''UNKNOWN''\<rparr>))"

text \<open>
  \<open>decode_instructions\<close> builds, for each 4-byte word of the stream,
  \<open>ARMInstruction(binary_word)\<close> and calls \<open>decode\<close> on it (lines 185-186).
\<close>

definition decode_word :: "int \<Rightarrow> error + ARMInstruction" where
  "decode_word w = decode (ARMInstruction_init w)"

section \<open>The executor (arm\_executor.py)\<close>

text \<open>
  \<open>ARMCpu\<close>: sixteen registers, the dict \<open>cpsr\<close> with the fixed keys N, Z, C, V (a record
  of four integers), and a bytearray of 1024 bytes.
\<close>

record cpsr_flags =
  cpsr_N :: int
  cpsr_Z :: int
  cpsr_C :: int
  cpsr_V :: int

record ARMCpu =
  registers :: "int list"
  cpsr :: cpsr_flags
  memory :: "8 word list"

definition ARMCpu_init :: ARMCpu where
  "ARMCpu_init =
     \<lparr>registers = replicate 16 0,
      cpsr = \<lparr>cpsr_N = 0, cpsr_Z = 0, cpsr_C = 0, cpsr_V = 0\<rparr>,
      memory = replicate 1024 0\<rparr>"

text \<open>
  \<open>_update_flags(result, carry_out=None, overflow=None)\<close>; the parameters \<open>op1\<close> and
  \<open>op2\<close> are never read.
\<close>

definition update_flags :: "int \<Rightarrow> bool option \<Rightarrow> bool option \<Rightarrow> ARMCpu \<Rightarrow> ARMCpu" where
  "update_flags result carry_out overflow self =
     (let result_32bit = result AND 0xFFFFFFFF;
          f1 = (cpsr self)\<lparr>cpsr_N := (if drop_bit 31 result_32bit AND 0x1 \<noteq> 0 then 1 else 0)\<rparr>;
          f2 = f1\<lparr>cpsr_Z := (if result_32bit = 0 then 1 else 0)\<rparr>;
          f3 = (case carry_out of None \<Rightarrow> f2
                | Some c \<Rightarrow> f2\<lparr>cpsr_C := (if c then 1 else 0)\<rparr>);
          f4 = (case overflow of None \<Rightarrow> f3
                | Some v \<Rightarrow> f3\<lparr>cpsr_V := (if v then 1 else 0)\<rparr>)
      in self\<lparr>cpsr := f4\<rparr>)"

text \<open>
  Lines 35-43 of \<open>_get_operand2\<close>: the shift amount, from the immediate field if there
  is one, else from register \<open>rs\<close>, else 0, and then \<open>actual_shift_amount &= 0x1F\<close>.
  \<open>operands.get(k)\<close> is the map lookup itself (\<open>None\<close> when the key is absent).
\<close>

definition actual_shift_amount :: "ARMCpu \<Rightarrow> ARMInstruction \<Rightarrow> error + int" where
  "actual_shift_amount self instruction =
     then_do
       (case operands instruction ''shift_amount'' of
          Some shift_amount \<Rightarrow> Inr shift_amount
        | None \<Rightarrow>
           (case operands instruction ''rs'' of
              Some rs \<Rightarrow> list_item (registers self) rs
            | None \<Rightarrow> Inr 0))
       (\<lambda>amount. Inr (amount AND 0x1F))"

text \<open>
  \<open>_get_operand2\<close>. The LSL and LSR branches return the shifted Python integer as it is;
  the negative ASR branch and the ROR branch mask with \<open>0xFFFFFFFF\<close>.
\<close>

definition get_operand2 :: "ARMCpu \<Rightarrow> ARMInstruction \<Rightarrow> error + int" where
  "get_operand2 self instruction =
     (case operands instruction ''operand2'' of
        Some imm \<Rightarrow> Inr imm
      | None \<Rightarrow>
         (case operands instruction ''rm'' of
            None \<Rightarrow> Inr 0
          | Some rm \<Rightarrow>
             then_do (list_item (registers self) rm) (\<lambda>rm_value.
               case operands instruction ''shift_type'' of
                 None \<Rightarrow> Inr rm_value
               | Some shift_type \<Rightarrow>
                  then_do (actual_shift_amount self instruction) (\<lambda>amount.
                    if shift_type = 0 then py_lshift rm_value amount
                    else if shift_type = 1 then py_rshift rm_value amount
                    else if shift_type = 2 then
                      (if rm_value AND 0x80000000 \<noteq> 0 then
                         then_do (struct_pack_I (rm_value AND 0xFFFFFFFF)) (\<lambda>bs.
                         then_do (struct_unpack_i bs) (\<lambda>signed_rm_value.
                         then_do (py_rshift signed_rm_value amount) (\<lambda>r.
                           Inr (r AND 0xFFFFFFFF))))
                       else py_rshift rm_value amount)
                    else if shift_type = 3 then
                      then_do (py_rshift rm_value amount) (\<lambda>lo.
                      then_do (py_lshift rm_value (32 - amount)) (\<lambda>hi.
                        Inr ((lo OR hi) AND 0xFFFFFFFF)))
                    else Inr rm_value))))"

text \<open>What \<open>execute_instruction\<close> prints, with the values its f-strings read.\<close>

datatype report =
    Skipped "string option"
  | OutOfBoundsLDR int
  | OutOfBoundsSTR int
  | Branch "string option" int
  | UnknownType "string option"

type_synonym outcome = "error + ARMCpu \<times> report option"

text \<open>
  The branch bodies of \<open>execute_instruction\<close>. The source repeats the same statements
  under several kinds: MOV, LSL, LSR, ASR and ROR (lines 85-90 and 209-232), ADD and ADDEQ
  (111-127, 195-208), SUB and SUBNE (128-143, 181-194); each group is one function here.
\<close>

definition exec_move :: "ARMCpu \<Rightarrow> ARMInstruction \<Rightarrow> outcome" where
  "exec_move self instruction =
     then_do (dict_item (operands instruction) ''rd'') (\<lambda>rd.
     then_do (get_operand2 self instruction) (\<lambda>operand2.
     then_do (list_store (registers self) rd (operand2 AND 0xFFFFFFFF)) (\<lambda>regs.
       let self1 = self\<lparr>registers := regs\<rparr> in
       if set_flags instruction then Inr (update_flags operand2 None None self1, None)
       else Inr (self1, None))))"

definition exec_ldr :: "ARMCpu \<Rightarrow> ARMInstruction \<Rightarrow> outcome" where
  "exec_ldr self instruction =
     then_do (dict_item (operands instruction) ''rd'') (\<lambda>rd.
     then_do (dict_item (operands instruction) ''rn'') (\<lambda>rn.
     then_do (dict_item (operands instruction) ''offset'') (\<lambda>offset.
     then_do (list_item (registers self) rn) (\<lambda>val_rn.
       let address = val_rn + offset in
       if 0 \<le> address \<and> address < int (length (memory self)) - 3 then
         then_do (struct_unpack_I (slice (memory self) (nat address) (nat (address + 4)))) (\<lambda>v.
         then_do (list_store (registers self) rd v) (\<lambda>regs.
           Inr (self\<lparr>registers := regs\<rparr>, None)))
       else Inr (self, Some (OutOfBoundsLDR address))))))"

definition exec_str :: "ARMCpu \<Rightarrow> ARMInstruction \<Rightarrow> outcome" where
  "exec_str self instruction =
     then_do (dict_item (operands instruction) ''rd'') (\<lambda>rd.
     then_do (dict_item (operands instruction) ''rn'') (\<lambda>rn.
     then_do (dict_item (operands instruction) ''offset'') (\<lambda>offset.
     then_do (list_item (registers self) rn) (\<lambda>val_rn.
       let address = val_rn + offset in
       then_do (list_item (registers self) rd) (\<lambda>v.
         if 0 \<le> address \<and> address < int (length (memory self)) - 3 then
           then_do (struct_pack_I v) (\<lambda>bs.
             Inr (self\<lparr>memory := slice_store (memory self) (nat address) (nat (address + 4)) bs\<rparr>,
                  None))
         else Inr (self, Some (OutOfBoundsSTR address)))))))"

definition exec_add :: "ARMCpu \<Rightarrow> ARMInstruction \<Rightarrow> outcome" where
  "exec_add self instruction =
     then_do (dict_item (operands instruction) ''rd'') (\<lambda>rd.
     then_do (dict_item (operands instruction) ''rn'') (\<lambda>rn.
     then_do (get_operand2 self instruction) (\<lambda>operand2.
     then_do (list_item (registers self) rn) (\<lambda>val_rn.
       let result = val_rn + operand2 in
       then_do (list_store (registers self) rd (result AND 0xFFFFFFFF)) (\<lambda>regs.
         let self1 = self\<lparr>registers := regs\<rparr> in
         if set_flags instruction then
           (let carry_out = (result > 0xFFFFFFFF);
                rn_sign = drop_bit 31 val_rn AND 0x1;
                op2_sign = drop_bit 31 operand2 AND 0x1;
                result_sign = drop_bit 31 result AND 0x1;
                overflow = (rn_sign = op2_sign \<and> rn_sign \<noteq> result_sign)
            in Inr (update_flags result (Some carry_out) (Some overflow) self1, None))
         else Inr (self1, None))))))"

text \<open>
  The subtraction with its flags, shared by SUB, SUBNE and CMP; CMP (lines 168-180) has
  the same arithmetic without the register write and without the test of \<open>set_flags\<close>.
\<close>

definition sub_flags :: "int \<Rightarrow> int \<Rightarrow> ARMCpu \<Rightarrow> ARMCpu" where
  "sub_flags val_rn operand2 self =
     (let result = val_rn - operand2;
          carry_out = (val_rn \<ge> operand2);
          rn_sign = drop_bit 31 val_rn AND 0x1;
          op2_sign = drop_bit 31 operand2 AND 0x1;
          result_sign = drop_bit 31 result AND 0x1;
          overflow = (rn_sign \<noteq> op2_sign \<and> rn_sign \<noteq> result_sign)
      in update_flags result (Some carry_out) (Some overflow) self)"

definition exec_sub :: "ARMCpu \<Rightarrow> ARMInstruction \<Rightarrow> outcome" where
  "exec_sub self instruction =
     then_do (dict_item (operands instruction) ''rd'') (\<lambda>rd.
     then_do (dict_item (operands instruction) ''rn'') (\<lambda>rn.
     then_do (get_operand2 self instruction) (\<lambda>operand2.
     then_do (list_item (registers self) rn) (\<lambda>val_rn.
       let result = val_rn - operand2 in
       then_do (list_store (registers self) rd (result AND 0xFFFFFFFF)) (\<lambda>regs.
         let self1 = self\<lparr>registers := regs\<rparr> in
         if set_flags instruction then Inr (sub_flags val_rn operand2 self1, None)
         else Inr (self1, None))))))"

definition exec_cmp :: "ARMCpu \<Rightarrow> ARMInstruction \<Rightarrow> outcome" where
  "exec_cmp self instruction =
     then_do (dict_item (operands instruction) ''rn'') (\<lambda>rn.
     then_do (get_operand2 self instruction) (\<lambda>operand2.
     then_do (list_item (registers self) rn) (\<lambda>val_rn.
       Inr (sub_flags val_rn operand2 self, None))))"

definition exec_mul :: "ARMCpu \<Rightarrow> ARMInstruction \<Rightarrow> outcome" where
  "exec_mul self instruction =
     then_do (dict_item (operands instruction) ''rd'') (\<lambda>rd.
     then_do (dict_item (operands instruction) ''rm'') (\<lambda>rm.
     then_do (dict_item (operands instruction) ''rs'') (\<lambda>rs.
     then_do (list_item (registers self) rm) (\<lambda>val_rm.
     then_do (list_item (registers self) rs) (\<lambda>val_rs.
       let result = val_rm * val_rs in
       then_do (list_store (registers self) rd (result AND 0xFFFFFFFF)) (\<lambda>regs.
         let self1 = self\<lparr>registers := regs\<rparr> in
         if set_flags instruction then Inr (update_flags result None None self1, None)
         else Inr (self1, None)))))))"

text \<open>AND (\<open>bitop = (AND)\<close>, lines 152-159) and ORR (\<open>bitop = (OR)\<close>, lines 160-167).\<close>

definition exec_logic :: "(int \<Rightarrow> int \<Rightarrow> int) \<Rightarrow> ARMCpu \<Rightarrow> ARMInstruction \<Rightarrow> outcome" where
  "exec_logic bitop self instruction =
     then_do (dict_item (operands instruction) ''rd'') (\<lambda>rd.
     then_do (dict_item (operands instruction) ''rn'') (\<lambda>rn.
     then_do (get_operand2 self instruction) (\<lambda>operand2.
     then_do (list_item (registers self) rn) (\<lambda>val_rn.
       let result = bitop val_rn operand2 in
       then_do (list_store (registers self) rd (result AND 0xFFFFFFFF)) (\<lambda>regs.
         let self1 = self\<lparr>registers := regs\<rparr> in
         if set_flags instruction then Inr (update_flags result None None self1, None)
         else Inr (self1, None))))))"

text \<open>The condition gate of lines 73-79: the value of \<open>execute_conditionally\<close>.\<close>

definition execute_conditionally :: "ARMCpu \<Rightarrow> ARMInstruction \<Rightarrow> bool" where
  "execute_conditionally self instruction =
     (if condition_code instruction = Some 1 then \<not> (cpsr_Z (cpsr self) = 1)
      else if condition_code instruction = Some 0 then \<not> (cpsr_Z (cpsr self) = 0)
      else True)"

definition execute_instruction :: "ARMCpu \<Rightarrow> ARMInstruction \<Rightarrow> outcome" where
  "execute_instruction self instruction =
     (let ty = instruction_type instruction in
      if \<not> execute_conditionally self instruction then Inr (self, Some (Skipped ty))
      else if ty = Some ''MOV'' then exec_move self instruction
      else if ty = Some ''LDR'' then exec_ldr self instruction
      else if ty = Some ''STR'' then exec_str self instruction
      else if ty = Some ''ADD'' then exec_add self instruction
      else if ty = Some ''SUB'' then exec_sub self instruction
      else if ty = Some ''MUL'' then exec_mul self instruction
      else if ty = Some ''AND'' then exec_logic (AND) self instruction
      else if ty = Some ''ORR'' then exec_logic (OR) self instruction
      else if ty = Some ''CMP'' then exec_cmp self instruction
      else if ty = Some ''SUBNE'' then exec_sub self instruction
      else if ty = Some ''ADDEQ'' then exec_add self instruction
      else if ty = Some ''LSL'' then exec_move self instruction
      else if ty = Some ''LSR'' then exec_move self instruction
      else if ty = Some ''ASR'' then exec_move self instruction
      else if ty = Some ''ROR'' then exec_move self instruction
      else if ty = Some ''B'' \<or> ty = Some ''BL'' then
        then_do (dict_item (operands instruction) ''offset'') (\<lambda>offset.
          Inr (self, Some (Branch ty offset)))
      else Inr (self, Some (UnknownType ty)))"

text \<open>
  One iteration of the loop of \<open>run_simulation\<close> (main\_simulator.py) on the instruction
  that \<open>decode_instructions\<close> builds from the word \<open>w\<close>.
\<close>

definition run_word :: "ARMCpu \<Rightarrow> int \<Rightarrow> outcome" where
  "run_word self w = then_do (decode_word w) (execute_instruction self)"

section \<open>Predicates of the statements\<close>

text \<open>The kinds an instruction record may carry, as the data model enumerates them.\<close>

definition enumerated_kinds :: "string list" where
  "enumerated_kinds =
     [''MOV'', ''ADD'', ''SUB'', ''ADDEQ'', ''SUBNE'', ''CMP'', ''AND'', ''ORR'', ''MUL'',
      ''LDR'', ''STR'', ''B'', ''BL'', ''LSL'', ''LSR'', ''ASR'', ''ROR'', ''UNKNOWN'',
      ''UNKNOWN_DATA_PROCESSING_IMM'', ''UNKNOWN_DATA_PROCESSING_REG'']"

definition known_kind :: "ARMInstruction \<Rightarrow> bool" where
  "known_kind i =
     (case instruction_type i of None \<Rightarrow> False | Some k \<Rightarrow> k \<in> set enumerated_kinds)"

text \<open>
  The register file as \<open>__init__\<close> builds it and every instruction keeps it: sixteen
  entries, each in \<open>[0, 2^32)\<close>.
\<close>

definition regs_ok :: "ARMCpu \<Rightarrow> bool" where
  "regs_ok self =
     (length (registers self) = 16 \<and> list_all (\<lambda>v. 0 \<le> v \<and> v < 2 ^ 32) (registers self))"

text \<open>What a register-writing branch does to the state.\<close>

definition writes_rd :: "ARMCpu \<Rightarrow> ARMInstruction \<Rightarrow> ARMCpu \<Rightarrow> bool" where
  "writes_rd s i s' =
     (\<exists>rd v. operands i ''rd'' = Some rd \<and> 0 \<le> v \<and> v < 2 ^ 32 \<and>
             list_store (registers s) rd v = Inr (registers s') \<and> memory s' = memory s)"

text \<open>Every register number stored in the operand set is one of 0..15.\<close>

definition reg_fields_ok :: "ARMInstruction \<Rightarrow> bool" where
  "reg_fields_ok i =
     list_all (\<lambda>k. case operands i k of None \<Rightarrow> True | Some r \<Rightarrow> 0 \<le> r \<and> r < 16)
       [''rd'', ''rn'', ''rm'', ''rs'']"

text \<open>
  The keys \<open>execute_instruction\<close> reads with \<open>operands[k]\<close> under each kind (a missing one
  raises KeyError); \<open>_get_operand2\<close> reads its keys with \<open>in\<close> and \<open>get\<close>, which never raise.
\<close>

definition needed_keys :: "string \<Rightarrow> string list" where
  "needed_keys t =
     (if t \<in> set [''MOV'', ''LSL'', ''LSR'', ''ASR'', ''ROR''] then [''rd'']
      else if t \<in> set [''ADD'', ''ADDEQ'', ''SUB'', ''SUBNE'', ''AND'', ''ORR''] then [''rd'', ''rn'']
      else if t = ''CMP'' then [''rn'']
      else if t = ''MUL'' then [''rd'', ''rm'', ''rs'']
      else if t \<in> set [''LDR'', ''STR''] then [''rd'', ''rn'', ''offset'']
      else if t \<in> set [''B'', ''BL''] then [''offset'']
      else [])"

definition operands_present :: "ARMInstruction \<Rightarrow> bool" where
  "operands_present i =
     (case instruction_type i of
        None \<Rightarrow> True
      | Some t \<Rightarrow> list_all (\<lambda>k. operands i k \<noteq> None) (needed_keys t))"

text \<open>A CMP record has \<open>set_flags\<close> true.\<close>

definition cmp_sets_flags :: "ARMInstruction \<Rightarrow> bool" where
  "cmp_sets_flags i = (instruction_type i \<noteq> Some ''CMP'' \<or> set_flags i)"

text \<open>The kinds \<open>execute_instruction\<close> has a branch for; any other falls to its last \<open>else\<close>.\<close>

definition executed_kinds :: "string list" where
  "executed_kinds =
     [''MOV'', ''LDR'', ''STR'', ''ADD'', ''SUB'', ''MUL'', ''AND'', ''ORR'', ''CMP'', ''SUBNE'',
      ''ADDEQ'', ''LSL'', ''LSR'', ''ASR'', ''ROR'', ''B'', ''BL'']"

text \<open>The kinds whose branch assigns \<open>self.registers[rd]\<close>.\<close>

definition register_writing_kinds :: "string list" where
  "register_writing_kinds =
     [''MOV'', ''LDR'', ''ADD'', ''SUB'', ''MUL'', ''AND'', ''ORR'', ''SUBNE'', ''ADDEQ'',
      ''LSL'', ''LSR'', ''ASR'', ''ROR'']"

section \<open>Bit fields\<close>

lemma and_3_cases: "(x::int) AND 3 = 0 \<or> x AND 3 = 1 \<or> x AND 3 = 2 \<or> x AND 3 = 3"
proof -
  have "x AND 3 = x mod 4"
    using take_bit_eq_mask[of 2 x] by (simp add: take_bit_eq_mod mask_eq_exp_minus_1)
  moreover have "0 \<le> x mod 4" "x mod 4 < 4" by simp_all
  ultimately show ?thesis by arith
qed

lemma and_15_bounds: "0 \<le> (x::int) AND 15" "(x::int) AND 15 \<le> 15" "(x::int) AND 15 < 16"
proof -
  show "0 \<le> x AND 15" by simp
  show le: "x AND 15 \<le> 15" by (rule AND_upper2) simp
  then show "x AND 15 < 16" by simp
qed

text \<open>The two shift counts of the rotate-immediate are never negative.\<close>

lemma rotate_rshift: "py_rshift x (2 * (r AND 15)) = Inr (drop_bit (nat (2 * (r AND 15))) x)"
  using and_15_bounds(1)[of r] by (simp add: py_rshift_def)

lemma rotate_lshift:
  "py_lshift x (32 - 2 * (r AND 15)) = Inr (push_bit (nat (32 - 2 * (r AND 15))) x)"
proof -
  have "r AND 15 \<le> 15" by (rule and_15_bounds)
  then have "\<not> 32 - 2 * (r AND 15) < 0" by linarith
  then show ?thesis unfolding py_lshift_def by (rule if_not_P)
qed

text \<open>Masking with \<open>0xFFFFFFFF\<close> keeps the low 32 bits; the rotate on integers.\<close>

lemma take_bit_32_mask: "(x::int) AND 0xFFFFFFFF = take_bit 32 x"
  using take_bit_eq_mask[of 32 x] by (simp add: mask_eq_exp_minus_1)

lemma bit_bounded: "0 \<le> (v::int) \<Longrightarrow> v < 2 ^ 32 \<Longrightarrow> bit v j \<Longrightarrow> j < 32"
proof (rule ccontr)
  assume v: "0 \<le> v" "v < 2 ^ 32" and b: "bit v j" and "\<not> j < 32"
  then have "32 \<le> j" by simp
  from v have "take_bit 32 v = v" by (simp add: take_bit_int_eq_self)
  then have "bit (take_bit 32 v) j" using b by simp
  then show False using \<open>32 \<le> j\<close> by (simp add: bit_take_bit_iff)
qed

lemma ror32_int:
  assumes "0 \<le> v" "v < 2 ^ 32" "n < 32"
  shows "drop_bit n v OR (push_bit (32 - n) v AND 0xFFFFFFFF)
         = uint (word_rotr n (word_of_int v :: 32 word))"
proof (rule bit_eqI)
  fix k
  have bb: "\<And>j. bit v j \<Longrightarrow> j < 32" using bit_bounded[OF assms(1,2)] .
  show "bit (drop_bit n v OR (push_bit (32 - n) v AND 0xFFFFFFFF)) k
        = bit (uint (word_rotr n (word_of_int v :: 32 word))) k"
  proof (cases "k < 32")
    case False
    then show ?thesis
      using bb[of "n + k"] 
      by (auto simp: take_bit_32_mask bit_or_iff bit_take_bit_iff bit_drop_bit_eq bit_push_bit_iff bit_uint_iff bit_word_rotr_iff bit_word_of_int_iff)
  next
    case True
    show ?thesis
    proof (cases "k + n < 32")
      case True
      then show ?thesis using \<open>k < 32\<close>
        by (auto simp: take_bit_32_mask bit_or_iff bit_take_bit_iff bit_drop_bit_eq bit_push_bit_iff bit_uint_iff bit_word_rotr_iff bit_word_of_int_iff add.commute)
    next
      case False
      then have m: "(k + n) mod 32 = k + n - 32" using \<open>k < 32\<close> assms(3)
        by (simp add: mod_if)
      have e: "k - (32 - n) = k + n - 32" using False assms(3) by simp
      show ?thesis using False \<open>k < 32\<close> assms(3) bb[of "n + k"]
        by (auto simp: take_bit_32_mask bit_or_iff bit_take_bit_iff bit_drop_bit_eq bit_push_bit_iff bit_uint_iff bit_word_rotr_iff bit_word_of_int_iff m e add.commute)
    qed
  qed
qed

lemma ror32_zero:
  assumes "0 \<le> (v::int)" "v < 2 ^ 32"
  shows "(drop_bit 0 v OR push_bit 32 v) AND 0xFFFFFFFF = v"
  using assms by (simp add: take_bit_32_mask take_bit_or take_bit_push_bit take_bit_int_eq_self)

lemma bit25_not_mul: "drop_bit 25 (w::int) AND 1 \<noteq> 0 \<Longrightarrow> drop_bit 24 w AND 15 \<noteq> 0"
proof
  assume a: "drop_bit 25 w AND 1 \<noteq> 0" and z: "drop_bit 24 w AND 15 = 0"
  from a have "odd (drop_bit 25 w)" by (simp add: and_one_eq odd_iff_mod_2_eq_one)
  then have "bit w 25" by (simp add: bit_iff_odd_drop_bit)
  moreover from z have "\<not> bit (drop_bit 24 w AND 15) 1" by simp
  then have "\<not> bit w 25" by (simp add: bit_and_iff bit_drop_bit_eq)
  ultimately show False by simp
qed

section \<open>The decoder always names a kind\<close>

lemma known_opcode_kind_imm: "known_kind (opcode_kind ''UNKNOWN_DATA_PROCESSING_IMM'' s)"
  by (simp add: known_kind_def opcode_kind_def enumerated_kinds_def)

lemma known_opcode_kind_reg: "known_kind (opcode_kind ''UNKNOWN_DATA_PROCESSING_REG'' s)"
  by (simp add: known_kind_def opcode_kind_def enumerated_kinds_def)

lemma known_condition_rename: "known_kind s \<Longrightarrow> known_kind (condition_rename s)"
  by (simp add: known_kind_def condition_rename_def enumerated_kinds_def)

lemma known_shift_alias: "known_kind (shift_alias (x AND 3) s)"
  using and_3_cases[of x]
  by (auto simp: known_kind_def shift_alias_def enumerated_kinds_def)

lemma known_operands_update: "known_kind (s\<lparr>operands := m\<rparr>) = known_kind s"
  by (simp add: known_kind_def)

lemma decode_dp_known: "\<exists>i. decode_data_processing self = Inr i \<and> known_kind i"
  unfolding decode_data_processing_def Let_def rotate_rshift rotate_lshift then_do_def
  by (simp add: known_opcode_kind_imm known_opcode_kind_reg known_condition_rename
        known_shift_alias known_operands_update)
     (simp add: known_kind_def enumerated_kinds_def)

lemma decode_word_known: "\<exists>i. decode_word w = Inr i \<and> known_kind i"
  unfolding decode_word_def decode_def Let_def
  using decode_dp_known by (simp add: known_kind_def enumerated_kinds_def)

text \<open>
  C8. \<open>decode\<close> is total: for every word \<open>w\<close> (every Python integer, so every 32-bit word
  among them) it returns a record, raising nothing, and the record's \<open>instruction_type\<close>
  is one of the twenty enumerated kinds; in particular it is never left at \<open>None\<close>.
\<close>

theorem decode_total:
  "\<exists>i k. decode_word w = Inr i \<and> instruction_type i = Some k \<and> k \<in> set enumerated_kinds"
proof -
  obtain i where i: "decode_word w = Inr i" "known_kind i"
    using decode_word_known by blast
  then show ?thesis by (auto simp: known_kind_def split: option.splits)
qed

theorem decode_total_witness:
  "\<exists>i k. decode_word 0xE3A00010 = Inr i \<and> instruction_type i = Some k \<and> k \<in> set enumerated_kinds"
  using decode_total [of "0xE3A00010"] .

section \<open>The rotate-immediate of the decoder\<close>

lemma operands_opcode_kind [simp]: "operands (opcode_kind u s) = operands s"
  by (simp add: opcode_kind_def)

lemma operands_condition_rename [simp]: "operands (condition_rename s) = operands s"
  by (simp add: condition_rename_def)

lemma operands_shift_alias [simp]: "operands (shift_alias b s) = operands s"
  by (simp add: shift_alias_def)

lemma decode_dp_immediate:
  assumes "drop_bit 25 (binary_word self) AND 1 \<noteq> 0"
  shows "\<exists>i. decode_data_processing self = Inr i \<and>
           operands i =
             [''rd'' \<mapsto> drop_bit 12 (binary_word self) AND 0xF,
              ''rn'' \<mapsto> drop_bit 16 (binary_word self) AND 0xF,
              ''operand2'' \<mapsto>
                 drop_bit (nat (2 * (drop_bit 8 (binary_word self) AND 0xF))) (binary_word self AND 0xFF)
                 OR (push_bit (nat (32 - 2 * (drop_bit 8 (binary_word self) AND 0xF))) (binary_word self AND 0xFF)
                     AND 0xFFFFFFFF)]"
  using assms
  unfolding decode_data_processing_def Let_def rotate_rshift rotate_lshift then_do_def
  by simp

text \<open>
  C6. For every data-processing word with bit 25 set (bits 27-26 are \<open>00\<close>; such a word
  never has the multiply pattern), the decoded \<open>operand2\<close> is the 32-bit rotate right
  (\<open>word_rotr\<close> on \<open>32 word\<close>, the reference) of the 8-bit immediate by twice the rotate
  field, for every rotate field 0..15; with rotate field 0 it is the immediate itself.
\<close>

theorem decode_rotate_immediate:
  assumes "drop_bit 26 w AND 3 = 0" and "drop_bit 25 w AND 1 \<noteq> 0"
  shows "\<exists>i. decode_word w = Inr i \<and>
           operands i ''operand2'' =
             Some (uint (word_rotr (nat (2 * (drop_bit 8 w AND 0xF)))
                           (word_of_int (w AND 0xFF) :: 32 word))) \<and>
           (drop_bit 8 w AND 0xF = 0 \<longrightarrow> operands i ''operand2'' = Some (w AND 0xFF))"
proof -
  let ?r = "drop_bit 8 w AND 0xF" and ?v = "w AND 0xFF"
  let ?self = "(ARMInstruction_init w)\<lparr>condition_code := Some (drop_bit 28 w AND 0xF)\<rparr>"
  have nm: "drop_bit 24 w AND 15 \<noteq> 0" using assms(2) by (rule bit25_not_mul)
  have dw: "decode_word w = decode_data_processing ?self"
    using nm assms(1) by (simp add: decode_word_def decode_def Let_def ARMInstruction_init_def)
  have bw: "binary_word ?self = w" by (simp add: ARMInstruction_init_def)
  obtain i where i: "decode_data_processing ?self = Inr i"
    and ops: "operands i ''operand2'' =
       Some (drop_bit (nat (2 * ?r)) ?v OR (push_bit (nat (32 - 2 * ?r)) ?v AND 0xFFFFFFFF))"
    using decode_dp_immediate[of ?self] assms(2) unfolding bw by auto
  have v0: "0 \<le> ?v" by simp
  have "?v \<le> 255" by (rule AND_upper2) simp
  then have v1: "?v < 2 ^ 32" by simp
  have r0: "0 \<le> ?r" and r1: "?r \<le> 15" by (rule and_15_bounds)+
  then have n: "nat (2 * ?r) < 32" by arith
  have e: "nat (32 - 2 * ?r) = 32 - nat (2 * ?r)" using r0 r1 by arith
  have rot: "drop_bit (nat (2 * ?r)) ?v OR (push_bit (nat (32 - 2 * ?r)) ?v AND 0xFFFFFFFF)
        = uint (word_rotr (nat (2 * ?r)) (word_of_int ?v :: 32 word))"
    unfolding e using v0 v1 n by (rule ror32_int)
  have zero: "?r = 0 \<Longrightarrow> drop_bit (nat (2 * ?r)) ?v OR (push_bit (nat (32 - 2 * ?r)) ?v AND 0xFFFFFFFF) = ?v"
    by (simp add: take_bit_32_mask take_bit_push_bit)
  show ?thesis using dw i ops rot zero by auto
qed

theorem decode_rotate_immediate_witness:
  "drop_bit 26 (0xE3A004FF::int) AND 3 = 0 \<and> drop_bit 25 (0xE3A004FF::int) AND 1 \<noteq> 0 \<and>
   (\<exists>i. decode_word 0xE3A004FF = Inr i \<and> operands i ''operand2'' = Some 0xFF000000)"
proof -
  have rot: "uint (word_rotr 8 (255 :: 32 word)) = 0xFF000000" by code_simp
  show ?thesis using decode_rotate_immediate [of "0xE3A004FF"] by (simp add: rot)
qed

section \<open>The operand2 resolver\<close>

text \<open>
  C7. For a register operand with shift type ROR whose resolved shift amount is 0, the
  resolver returns the 32-bit value of register \<open>rm\<close> unchanged, and raises nothing.
\<close>

theorem ror_by_zero:
  assumes "operands i ''operand2'' = None" and "operands i ''rm'' = Some rm"
    and "list_item (registers s) rm = Inr v" and "0 \<le> v" and "v < 2 ^ 32"
    and "operands i ''shift_type'' = Some 3" and "actual_shift_amount s i = Inr 0"
  shows "get_operand2 s i = Inr v"
  using assms ror32_zero[of v]
  by (simp add: get_operand2_def then_do_def py_rshift_def py_lshift_def)

theorem ror_by_zero_witness:
  "operands \<lparr>binary_word = 0xE1A00060, instruction_type = Some ''ROR'', opcode = Some 13,
             operands = [''rd'' \<mapsto> 0, ''rm'' \<mapsto> 0, ''shift_amount'' \<mapsto> 0,
                         ''shift_type'' \<mapsto> 3, ''rn'' \<mapsto> 0],
             condition_code = Some 14, set_flags = False\<rparr> ''shift_type'' = Some 3 \<and>
   get_operand2 (ARMCpu_init\<lparr>registers := [0x12345678, 0, 0, 0, 0, 0, 0, 0, 0, 0, 0, 0, 0, 0, 0, 0]\<rparr>)
     \<lparr>binary_word = 0xE1A00060, instruction_type = Some ''ROR'', opcode = Some 13,
      operands = [''rd'' \<mapsto> 0, ''rm'' \<mapsto> 0, ''shift_amount'' \<mapsto> 0,
                  ''shift_type'' \<mapsto> 3, ''rn'' \<mapsto> 0],
      condition_code = Some 14, set_flags = False\<rparr>
   = Inr 0x12345678"
  using ror_by_zero [of 
     "\<lparr>binary_word = 0xE1A00060, instruction_type = Some ''ROR'', opcode = Some 13,
      operands = [''rd'' \<mapsto> 0, ''rm'' \<mapsto> 0, ''shift_amount'' \<mapsto> 0,
                  ''shift_type'' \<mapsto> 3, ''rn'' \<mapsto> 0],
      condition_code = Some 14, set_flags = False\<rparr>" 0
     "ARMCpu_init\<lparr>registers := [0x12345678, 0, 0, 0, 0, 0, 0, 0, 0, 0, 0, 0, 0, 0, 0, 0]\<rparr>"
     "0x12345678"]
  by (simp add: actual_shift_amount_def list_item_def list_pos_def then_do_def)

text \<open>
  C1. The LSL branch of the resolver returns \<open>rm_value << amount\<close> without a mask: for
  \<open>MOV R0, R1, LSL #1\<close> (word \<open>0xE1A00081\<close>) with \<open>R1 = 0x80000000\<close> it returns \<open>2^32\<close>,
  which is not below \<open>2^32\<close>. The unmasked value reaches the flag arithmetic: for
  \<open>ADDS R0, R1, R2, LSL #1\<close> (word \<open>0xE0910082\<close>) with \<open>R1 = 0\<close>, \<open>R2 = 0x80000000\<close> the
  register written is 0 and the carry flag is set.
\<close>

theorem lsl_result_not_masked:
  "then_do (decode_word 0xE1A00081)
     (get_operand2 (ARMCpu_init\<lparr>registers := [0, 0x80000000, 0, 0, 0, 0, 0, 0, 0, 0, 0, 0, 0, 0, 0, 0]\<rparr>))
   = Inr 0x100000000
   \<and> run_word (ARMCpu_init\<lparr>registers := [0, 0, 0x80000000, 0, 0, 0, 0, 0, 0, 0, 0, 0, 0, 0, 0, 0]\<rparr>)
        0xE0910082
     = Inr (ARMCpu_init\<lparr>registers := [0, 0, 0x80000000, 0, 0, 0, 0, 0, 0, 0, 0, 0, 0, 0, 0, 0],
                        cpsr := \<lparr>cpsr_N = 0, cpsr_Z = 1, cpsr_C = 1, cpsr_V = 0\<rparr>\<rparr>, None)"
  by (simp add: run_word_def decode_word_def decode_def decode_data_processing_def
        ARMInstruction_init_def ARMCpu_init_def shift_alias_def opcode_kind_def
        condition_rename_def then_do_def get_operand2_def actual_shift_amount_def
        list_item_def list_pos_def list_store_def dict_item_def py_lshift_def py_rshift_def
        execute_instruction_def execute_conditionally_def exec_add_def update_flags_def)

section \<open>Effects of the executor's branches\<close>

lemma then_do_Inr [simp]: "then_do (Inr v) f = f v"
  by (simp add: then_do_def)

lemma then_do_Inl [simp]: "then_do (Inl e) f = Inl e"
  by (simp add: then_do_def)

lemma then_do_eq_Inr: "then_do m f = Inr y \<longleftrightarrow> (\<exists>v. m = Inr v \<and> f v = Inr y)"
  by (cases m) simp_all

lemma registers_update_flags [simp]: "registers (update_flags r c v s) = registers s"
  by (simp add: update_flags_def Let_def)

lemma memory_update_flags [simp]: "memory (update_flags r c v s) = memory s"
  by (simp add: update_flags_def Let_def)

lemma registers_sub_flags [simp]: "registers (sub_flags a b s) = registers s"
  by (simp add: sub_flags_def Let_def)

lemma memory_sub_flags [simp]: "memory (sub_flags a b s) = memory s"
  by (simp add: sub_flags_def Let_def)

lemma mask32_bounds: "0 \<le> (x::int) AND 0xFFFFFFFF" "(x::int) AND 0xFFFFFFFF < 2 ^ 32"
  using take_bit_int_less_exp[of 32 x] by (simp_all add: take_bit_32_mask)

lemma struct_unpack_I_bounds:
  assumes "struct_unpack_I bs = Inr v"
  shows "0 \<le> v \<and> v < 2 ^ 32"
proof -
  from assms obtain b0 b1 b2 b3 :: "8 word" where
    v: "v = uint b0 + 256 * uint b1 + 65536 * uint b2 + 16777216 * uint b3"
    by (auto simp: struct_unpack_I_def split: list.splits)
  have "uint b0 < 256" "uint b1 < 256" "uint b2 < 256" "uint b3 < 256"
    using uint_bounded[of b0] uint_bounded[of b1] uint_bounded[of b2] uint_bounded[of b3]
    by simp_all
  moreover have "0 \<le> uint b0" "0 \<le> uint b1" "0 \<le> uint b2" "0 \<le> uint b3" by simp_all
  ultimately show ?thesis unfolding v by simp
qed

lemma writes_rdI:
  "operands i ''rd'' = Some rd \<Longrightarrow> 0 \<le> v \<Longrightarrow> v < 2 ^ 32 \<Longrightarrow>
   list_store (registers s) rd v = Inr (registers s') \<Longrightarrow> memory s' = memory s \<Longrightarrow>
   writes_rd s i s'"
  unfolding writes_rd_def by blast

lemma writes_rd_masked:
  "operands i ''rd'' = Some rd \<Longrightarrow>
   list_store (registers s) rd (x AND 0xFFFFFFFF) = Inr regs \<Longrightarrow>
   registers s' = regs \<Longrightarrow> memory s' = memory s \<Longrightarrow> writes_rd s i s'"
  by (rule writes_rdI[where v = "x AND 0xFFFFFFFF"]) (simp_all add: mask32_bounds)

lemma writes_rd_loaded:
  "operands i ''rd'' = Some rd \<Longrightarrow> struct_unpack_I bs = Inr v \<Longrightarrow>
   list_store (registers s) rd v = Inr regs \<Longrightarrow>
   registers s' = regs \<Longrightarrow> memory s' = memory s \<Longrightarrow> writes_rd s i s'"
  using struct_unpack_I_bounds[of bs v] by (auto intro!: writes_rdI[where v = v and rd = rd])

lemma dict_item_eq_Inr [simp]: "dict_item d k = Inr v \<longleftrightarrow> d k = Some v"
  by (simp add: dict_item_def split: option.splits)

lemma exec_move_effect:
  "exec_move s i = Inr (s', r) \<Longrightarrow> writes_rd s i s' \<and> (\<not> set_flags i \<longrightarrow> cpsr s' = cpsr s)"
  unfolding exec_move_def Let_def
  by (auto simp: then_do_eq_Inr split: if_splits intro: writes_rd_masked)

lemma exec_add_effect:
  "exec_add s i = Inr (s', r) \<Longrightarrow> writes_rd s i s' \<and> (\<not> set_flags i \<longrightarrow> cpsr s' = cpsr s)"
  unfolding exec_add_def Let_def
  by (auto simp: then_do_eq_Inr split: if_splits intro: writes_rd_masked)

lemma exec_sub_effect:
  "exec_sub s i = Inr (s', r) \<Longrightarrow> writes_rd s i s' \<and> (\<not> set_flags i \<longrightarrow> cpsr s' = cpsr s)"
  unfolding exec_sub_def Let_def
  by (auto simp: then_do_eq_Inr split: if_splits intro: writes_rd_masked)

lemma exec_mul_effect:
  "exec_mul s i = Inr (s', r) \<Longrightarrow> writes_rd s i s' \<and> (\<not> set_flags i \<longrightarrow> cpsr s' = cpsr s)"
  unfolding exec_mul_def Let_def
  by (auto simp: then_do_eq_Inr split: if_splits intro: writes_rd_masked)

lemma exec_logic_effect:
  "exec_logic f s i = Inr (s', r) \<Longrightarrow> writes_rd s i s' \<and> (\<not> set_flags i \<longrightarrow> cpsr s' = cpsr s)"
  unfolding exec_logic_def Let_def
  by (auto simp: then_do_eq_Inr split: if_splits intro: writes_rd_masked)

lemma exec_cmp_effect:
  "exec_cmp s i = Inr (s', r) \<Longrightarrow> registers s' = registers s \<and> memory s' = memory s"
  unfolding exec_cmp_def by (auto simp: then_do_eq_Inr)

lemma exec_ldr_effect:
  "exec_ldr s i = Inr (s', r) \<Longrightarrow>
     (s' = s \<or> writes_rd s i s') \<and> cpsr s' = cpsr s"
  unfolding exec_ldr_def Let_def
  by (auto simp: then_do_eq_Inr split: if_splits intro: writes_rd_loaded)

lemma exec_str_effect:
  "exec_str s i = Inr (s', r) \<Longrightarrow> registers s' = registers s \<and> cpsr s' = cpsr s"
  unfolding exec_str_def Let_def
  by (auto simp: then_do_eq_Inr split: if_splits)

lemma execute_effect:
  assumes "execute_instruction s i = Inr (s', r)"
  shows "(registers s' = registers s \<or> writes_rd s i s') \<and>
         (cpsr s' = cpsr s \<or> set_flags i \<or> instruction_type i = Some ''CMP'')"
  using assms unfolding execute_instruction_def Let_def
  by (auto simp: then_do_eq_Inr split: if_splits
      dest: exec_move_effect exec_add_effect exec_sub_effect exec_mul_effect exec_logic_effect
            exec_cmp_effect exec_ldr_effect exec_str_effect)

section \<open>What the decoder stores in a record\<close>

lemma reg_fields_kind [simp]:
  "reg_fields_ok (opcode_kind u s) = reg_fields_ok s"
  "reg_fields_ok (condition_rename s) = reg_fields_ok s"
  "reg_fields_ok (shift_alias b s) = reg_fields_ok s"
  by (simp_all add: reg_fields_ok_def)

lemma cmp_opcode_kind: "u \<noteq> ''CMP'' \<Longrightarrow> cmp_sets_flags (opcode_kind u s)"
  by (simp add: cmp_sets_flags_def opcode_kind_def)

lemma cmp_condition_rename: "cmp_sets_flags s \<Longrightarrow> cmp_sets_flags (condition_rename s)"
  by (simp add: cmp_sets_flags_def condition_rename_def)

lemma cmp_operands_update [simp]: "cmp_sets_flags (s\<lparr>operands := m\<rparr>) = cmp_sets_flags s"
  by (simp add: cmp_sets_flags_def)

lemma cmp_shift_alias:
  "instruction_type s = None \<Longrightarrow> cmp_sets_flags (shift_alias b s)"
  by (simp add: cmp_sets_flags_def shift_alias_def)

lemma decode_dp_shape:
  assumes "instruction_type self = None"
  shows "\<exists>i. decode_data_processing self = Inr i \<and> reg_fields_ok i \<and> cmp_sets_flags i"
  using and_15_bounds assms
  unfolding decode_data_processing_def Let_def rotate_rshift rotate_lshift
  by (simp add: cmp_opcode_kind cmp_condition_rename cmp_shift_alias)
     (simp add: reg_fields_ok_def cmp_sets_flags_def)

lemma decode_word_shape:
  "\<exists>i. decode_word w = Inr i \<and> reg_fields_ok i \<and> cmp_sets_flags i"
  unfolding decode_word_def decode_def Let_def
  using decode_dp_shape[of "(ARMInstruction_init w)\<lparr>condition_code := Some (drop_bit 28 w AND 0xF)\<rparr>"]
    and_15_bounds
  by (simp add: ARMInstruction_init_def) (simp add: reg_fields_ok_def cmp_sets_flags_def)

section \<open>The executor raises nothing on decoded records\<close>

lemma list_store_length: "list_store xs i v = Inr ys \<Longrightarrow> length ys = length xs"
  by (auto simp: list_store_def split: option.splits)

lemma list_store_all:
  "list_store xs i v = Inr ys \<Longrightarrow> list_all P xs \<Longrightarrow> P v \<Longrightarrow> list_all P ys"
proof -
  assume a: "list_store xs i v = Inr ys" "list_all P xs" "P v"
  then obtain p where "ys = xs[p := v]" by (auto simp: list_store_def split: option.splits)
  moreover have "set (xs[p := v]) \<subseteq> insert v (set xs)" by (rule set_update_subset_insert)
  ultimately show ?thesis using a(2,3) by (auto simp: list_all_iff)
qed

lemma list_store_other:
  assumes "list_store xs i v = Inr ys" "0 \<le> i" "i \<noteq> int n"
  shows "ys ! n = xs ! n"
  using assms by (auto simp: list_store_def list_pos_def split: option.splits if_splits)

lemma execute_regs_ok:
  assumes "execute_instruction s i = Inr (s', r)" "regs_ok s"
  shows "regs_ok s'"
proof -
  from execute_effect[OF assms(1)] consider "registers s' = registers s" | "writes_rd s i s'"
    by blast
  then show ?thesis
  proof cases
    case 1 then show ?thesis using assms(2) by (simp add: regs_ok_def)
  next
    case 2
    then obtain rd v where "0 \<le> v" "v < 2 ^ 32" "list_store (registers s) rd v = Inr (registers s')"
      unfolding writes_rd_def by blast
    then show ?thesis using assms(2) list_store_length[of "registers s" rd v "registers s'"]
        list_store_all[of "registers s" rd v "registers s'" "\<lambda>v. 0 \<le> v \<and> v < 2 ^ 32"]
      by (simp add: regs_ok_def)
  qed
qed


lemma present_dp:
  assumes "operands s ''rd'' \<noteq> None" "operands s ''rn'' \<noteq> None"
    and "u = ''UNKNOWN_DATA_PROCESSING_IMM'' \<or> u = ''UNKNOWN_DATA_PROCESSING_REG''"
  shows "operands_present (condition_rename (opcode_kind u s))"
  using assms
  by (auto simp: operands_present_def needed_keys_def condition_rename_def opcode_kind_def)

lemma present_shift:
  assumes "m ''rd'' \<noteq> None" "instruction_type s = None"
  shows "operands_present ((shift_alias b s)\<lparr>operands := m\<rparr>)"
  using assms by (simp add: operands_present_def needed_keys_def shift_alias_def)

lemma decode_dp_present:
  assumes "instruction_type self = None"
  shows "\<exists>i. decode_data_processing self = Inr i \<and> operands_present i"
  using assms
  unfolding decode_data_processing_def Let_def rotate_rshift rotate_lshift
  by (simp add: present_dp present_shift)
     (simp add: operands_present_def needed_keys_def)

lemma decode_word_present: "\<exists>i. decode_word w = Inr i \<and> operands_present i"
  unfolding decode_word_def decode_def Let_def
  using decode_dp_present[of "(ARMInstruction_init w)\<lparr>condition_code := Some (drop_bit 28 w AND 0xF)\<rparr>"]
  by (simp add: ARMInstruction_init_def) (simp add: operands_present_def needed_keys_def)

lemma decode_word_wf:
  "\<exists>i. decode_word w = Inr i \<and> operands_present i \<and> reg_fields_ok i \<and> cmp_sets_flags i"
  using decode_word_present[of w] decode_word_shape[of w] by auto


lemma list_item_ok: "0 \<le> r \<Longrightarrow> r < int (length xs) \<Longrightarrow> list_item xs r = Inr (xs ! nat r)"
  by (simp add: list_item_def list_pos_def)

lemma list_store_ok: "0 \<le> r \<Longrightarrow> r < int (length xs) \<Longrightarrow> list_store xs r v = Inr (xs[nat r := v])"
  by (simp add: list_store_def list_pos_def)

lemma dict_item_Some: "d k = Some v \<Longrightarrow> dict_item d k = Inr v"
  by (simp add: dict_item_def)

lemma and_31_bounds: "0 \<le> (x::int) AND 31" "(x::int) AND 31 \<le> 31"
proof -
  show "0 \<le> x AND 31" by simp
  show "x AND 31 \<le> 31" by (rule AND_upper2) simp
qed

lemma py_rshift_and31: "py_rshift x (a AND 31) = Inr (drop_bit (nat (a AND 31)) x)"
  using and_31_bounds(1)[of a] by (simp add: py_rshift_def)

lemma py_lshift_and31: "py_lshift x (a AND 31) = Inr (push_bit (nat (a AND 31)) x)"
  using and_31_bounds(1)[of a] by (simp add: py_lshift_def)

lemma py_lshift_32_minus: "py_lshift x (32 - (a AND 31)) = Inr (push_bit (nat (32 - (a AND 31))) x)"
proof -
  have "a AND 31 \<le> 31" by (rule and_31_bounds)
  then have "\<not> 32 - (a AND 31) < 0" by linarith
  then show ?thesis unfolding py_lshift_def by (rule if_not_P)
qed

lemma struct_pack_I_mask:
  "\<exists>b0 b1 b2 b3. struct_pack_I (x AND 0xFFFFFFFF) = Inr [b0, b1, b2, b3]"
  using mask32_bounds[of x] by (simp add: struct_pack_I_def)

lemma struct_unpack_i_four: "\<exists>v. struct_unpack_i [b0, b1, b2, b3] = Inr v"
  by (simp add: struct_unpack_i_def struct_unpack_I_def)

lemma reg_field:
  assumes "reg_fields_ok i" "operands i k = Some r" "k \<in> set [''rd'', ''rn'', ''rm'', ''rs'']"
  shows "0 \<le> r \<and> r < 16"
  using assms by (auto simp: reg_fields_ok_def)

lemma actual_shift_amount_total:
  assumes "reg_fields_ok i" "length (registers s) = 16"
  shows "\<exists>a. actual_shift_amount s i = Inr (a AND 31)"
proof (cases "operands i ''shift_amount''")
  case (Some sa)
  then show ?thesis by (auto simp: actual_shift_amount_def)
next
  case None
  show ?thesis
  proof (cases "operands i ''rs''")
    case None
    with \<open>operands i ''shift_amount'' = None\<close>
    have "actual_shift_amount s i = Inr (0 AND 31)" by (simp add: actual_shift_amount_def)
    then show ?thesis by blast
  next
    case (Some rs)
    then have "0 \<le> rs \<and> rs < 16" using reg_field[OF assms(1)] by simp
    then have "list_item (registers s) rs = Inr (registers s ! nat rs)"
      using assms(2) by (simp add: list_item_ok)
    with Some \<open>operands i ''shift_amount'' = None\<close> show ?thesis
      by (auto simp: actual_shift_amount_def)
  qed
qed

lemma shifted_total:
  "\<exists>v. (if shift_type = 0 then py_lshift rm_value (a AND 31)
        else if shift_type = 1 then py_rshift rm_value (a AND 31)
        else if shift_type = 2 then
          (if rm_value AND 0x80000000 \<noteq> 0 then
             then_do (struct_pack_I (rm_value AND 0xFFFFFFFF)) (\<lambda>bs.
             then_do (struct_unpack_i bs) (\<lambda>signed_rm_value.
             then_do (py_rshift signed_rm_value (a AND 31)) (\<lambda>r.
               Inr (r AND 0xFFFFFFFF))))
           else py_rshift rm_value (a AND 31))
        else if shift_type = 3 then
          then_do (py_rshift rm_value (a AND 31)) (\<lambda>lo.
          then_do (py_lshift rm_value (32 - (a AND 31))) (\<lambda>hi.
            Inr ((lo OR hi) AND 0xFFFFFFFF)))
        else Inr rm_value) = Inr (v::int)"
proof -
  obtain b0 b1 b2 b3 where p: "struct_pack_I (rm_value AND 0xFFFFFFFF) = Inr [b0, b1, b2, b3]"
    using struct_pack_I_mask by blast
  obtain sv where u: "struct_unpack_i [b0, b1, b2, b3] = Inr sv"
    using struct_unpack_i_four by blast
  show ?thesis
    by (simp add: py_rshift_and31 py_lshift_and31 py_lshift_32_minus p u)
qed

lemma get_operand2_total:
  assumes "reg_fields_ok i" "length (registers s) = 16"
  shows "\<exists>v. get_operand2 s i = Inr v"
proof (cases "operands i ''operand2''")
  case (Some imm)
  then show ?thesis by (simp add: get_operand2_def)
next
  case no_imm: None
  show ?thesis
  proof (cases "operands i ''rm''")
    case None
    with no_imm show ?thesis by (simp add: get_operand2_def)
  next
    case (Some rm)
    then have "0 \<le> rm \<and> rm < 16" using reg_field[OF assms(1)] by simp
    then have rmv: "list_item (registers s) rm = Inr (registers s ! nat rm)"
      using assms(2) by (simp add: list_item_ok)
    show ?thesis
    proof (cases "operands i ''shift_type''")
      case None
      with no_imm Some rmv show ?thesis by (simp add: get_operand2_def)
    next
      case st: (Some shift_type)
      obtain a where a: "actual_shift_amount s i = Inr (a AND 31)"
        using actual_shift_amount_total[OF assms] by blast
      show ?thesis
        using shifted_total[of shift_type "registers s ! nat rm" a]
        by (simp add: get_operand2_def no_imm Some rmv st a)
    qed
  qed
qed


lemma exec_move_total:
  assumes "operands i ''rd'' \<noteq> None" "reg_fields_ok i" "length (registers s) = 16"
  shows "\<exists>s' r. exec_move s i = Inr (s', r)"
proof -
  obtain rd where rd: "operands i ''rd'' = Some rd" using assms(1) by blast
  then have b: "0 \<le> rd \<and> rd < 16" using reg_field[OF assms(2)] by simp
  obtain v where v: "get_operand2 s i = Inr v" using get_operand2_total[OF assms(2,3)] by blast
  show ?thesis using b assms(3)
    by (simp add: exec_move_def dict_item_def rd v list_store_ok Let_def)
qed

lemma exec_arith_total:
  assumes "operands i ''rd'' \<noteq> None" "operands i ''rn'' \<noteq> None" "reg_fields_ok i"
    "length (registers s) = 16"
  shows "\<exists>s' r. exec_add s i = Inr (s', r)" "\<exists>s' r. exec_sub s i = Inr (s', r)"
    "\<exists>s' r. exec_logic f s i = Inr (s', r)"
proof -
  obtain rd where rd: "operands i ''rd'' = Some rd" using assms(1) by blast
  then have b: "0 \<le> rd \<and> rd < 16" using reg_field[OF assms(3)] by simp
  obtain rn where rn: "operands i ''rn'' = Some rn" using assms(2) by blast
  then have c: "0 \<le> rn \<and> rn < 16" using reg_field[OF assms(3)] by simp
  obtain v where v: "get_operand2 s i = Inr v" using get_operand2_total[OF assms(3,4)] by blast
  show "\<exists>s' r. exec_add s i = Inr (s', r)" using b c assms(4)
    by (simp add: exec_add_def dict_item_def rd rn v list_store_ok
          list_item_ok Let_def)
  show "\<exists>s' r. exec_sub s i = Inr (s', r)" using b c assms(4)
    by (simp add: exec_sub_def dict_item_def rd rn v list_store_ok
          list_item_ok Let_def)
  show "\<exists>s' r. exec_logic f s i = Inr (s', r)" using b c assms(4)
    by (simp add: exec_logic_def dict_item_def rd rn v list_store_ok
          list_item_ok Let_def)
qed

lemma exec_cmp_total:
  assumes "operands i ''rn'' \<noteq> None" "reg_fields_ok i" "length (registers s) = 16"
  shows "\<exists>s' r. exec_cmp s i = Inr (s', r)"
proof -
  obtain rn where rn: "operands i ''rn'' = Some rn" using assms(1) by blast
  then have c: "0 \<le> rn \<and> rn < 16" using reg_field[OF assms(2)] by simp
  obtain v where v: "get_operand2 s i = Inr v" using get_operand2_total[OF assms(2,3)] by blast
  show ?thesis using c assms(3)
    by (simp add: exec_cmp_def dict_item_def rn v list_item_ok)
qed

lemma exec_mul_total:
  assumes "operands i ''rd'' \<noteq> None" "operands i ''rm'' \<noteq> None" "operands i ''rs'' \<noteq> None"
    "reg_fields_ok i" "length (registers s) = 16"
  shows "\<exists>s' r. exec_mul s i = Inr (s', r)"
proof -
  obtain rd where rd: "operands i ''rd'' = Some rd" using assms(1) by blast
  then have b: "0 \<le> rd \<and> rd < 16" using reg_field[OF assms(4)] by simp
  obtain rm where rm: "operands i ''rm'' = Some rm" using assms(2) by blast
  then have c: "0 \<le> rm \<and> rm < 16" using reg_field[OF assms(4)] by simp
  obtain rs where rs: "operands i ''rs'' = Some rs" using assms(3) by blast
  then have d: "0 \<le> rs \<and> rs < 16" using reg_field[OF assms(4)] by simp
  show ?thesis using b c d assms(5)
    by (simp add: exec_mul_def dict_item_def rd rm rs
          list_store_ok list_item_ok Let_def)
qed


lemma length_four: "length bs = 4 \<Longrightarrow> \<exists>a b c d. bs = [a, b, c, d]"
  by (auto simp: eval_nat_numeral length_Suc_conv)

lemma slice_four:
  assumes "0 \<le> a" "a \<le> int (length m) - 4"
  shows "\<exists>v. struct_unpack_I (slice m (nat a) (nat (a + 4))) = Inr v"
proof -
  have "length (slice m (nat a) (nat (a + 4))) = 4" using assms by (simp add: slice_def)
  then obtain b0 b1 b2 b3 where "slice m (nat a) (nat (a + 4)) = [b0, b1, b2, b3]"
    using length_four by blast
  then show ?thesis by (simp add: struct_unpack_I_def)
qed

lemma exec_ldr_result:
  assumes "operands i ''rd'' = Some rd" "operands i ''rn'' = Some rn"
    "operands i ''offset'' = Some off" "0 \<le> rd \<and> rd < 16" "0 \<le> rn \<and> rn < 16"
    "length (registers s) = 16"
  shows "0 \<le> registers s ! nat rn + off \<and> registers s ! nat rn + off \<le> int (length (memory s)) - 4 \<Longrightarrow>
         \<exists>v. struct_unpack_I (slice (memory s) (nat (registers s ! nat rn + off))
                                 (nat (registers s ! nat rn + off + 4))) = Inr v \<and>
             exec_ldr s i = Inr (s\<lparr>registers := (registers s)[nat rd := v]\<rparr>, None)"
    and "\<not> (0 \<le> registers s ! nat rn + off \<and> registers s ! nat rn + off \<le> int (length (memory s)) - 4) \<Longrightarrow>
         exec_ldr s i = Inr (s, Some (OutOfBoundsLDR (registers s ! nat rn + off)))"
proof -
  let ?a = "registers s ! nat rn + off"
  have rnv: "list_item (registers s) rn = Inr (registers s ! nat rn)"
    using assms(5,6) by (simp add: list_item_ok)
  { assume r: "0 \<le> ?a \<and> ?a \<le> int (length (memory s)) - 4"
    then obtain v where v: "struct_unpack_I (slice (memory s) (nat ?a) (nat (?a + 4))) = Inr v"
      using slice_four[of ?a "memory s"] by blast
    have "exec_ldr s i = Inr (s\<lparr>registers := (registers s)[nat rd := v]\<rparr>, None)"
      using r assms(4,6)
      by (simp add: exec_ldr_def dict_item_def assms(1,2,3) rnv Let_def v list_store_ok)
    with v show "\<exists>v. struct_unpack_I (slice (memory s) (nat ?a) (nat (?a + 4))) = Inr v \<and>
             exec_ldr s i = Inr (s\<lparr>registers := (registers s)[nat rd := v]\<rparr>, None)" by blast }
  { assume "\<not> (0 \<le> ?a \<and> ?a \<le> int (length (memory s)) - 4)"
    then show "exec_ldr s i = Inr (s, Some (OutOfBoundsLDR ?a))"
      by (auto simp: exec_ldr_def dict_item_def assms(1,2,3) rnv Let_def) }
qed

lemma exec_str_result:
  assumes "operands i ''rd'' = Some rd" "operands i ''rn'' = Some rn"
    "operands i ''offset'' = Some off" "0 \<le> rd \<and> rd < 16" "0 \<le> rn \<and> rn < 16"
    "regs_ok s"
  shows "0 \<le> registers s ! nat rn + off \<and> registers s ! nat rn + off \<le> int (length (memory s)) - 4 \<Longrightarrow>
         \<exists>bs. struct_pack_I (registers s ! nat rd) = Inr bs \<and>
             exec_str s i =
               Inr (s\<lparr>memory := slice_store (memory s) (nat (registers s ! nat rn + off))
                                   (nat (registers s ! nat rn + off + 4)) bs\<rparr>, None)"
    and "\<not> (0 \<le> registers s ! nat rn + off \<and> registers s ! nat rn + off \<le> int (length (memory s)) - 4) \<Longrightarrow>
         exec_str s i = Inr (s, Some (OutOfBoundsSTR (registers s ! nat rn + off)))"
proof -
  let ?a = "registers s ! nat rn + off"
  have len: "length (registers s) = 16" using assms(6) by (simp add: regs_ok_def)
  have rnv: "list_item (registers s) rn = Inr (registers s ! nat rn)"
    using assms(5) len by (simp add: list_item_ok)
  have rdv: "list_item (registers s) rd = Inr (registers s ! nat rd)"
    using assms(4) len by (simp add: list_item_ok)
  have "nat rd < length (registers s)" using assms(4) len by arith
  then have "0 \<le> registers s ! nat rd \<and> registers s ! nat rd < 2 ^ 32"
    using assms(6) by (simp add: regs_ok_def list_all_length)
  then obtain bs where bs: "struct_pack_I (registers s ! nat rd) = Inr bs"
    by (simp add: struct_pack_I_def)
  { assume r: "0 \<le> ?a \<and> ?a \<le> int (length (memory s)) - 4"
    have "exec_str s i = Inr (s\<lparr>memory := slice_store (memory s) (nat ?a) (nat (?a + 4)) bs\<rparr>, None)"
      using r by (simp add: exec_str_def dict_item_def assms(1,2,3) rnv rdv Let_def bs)
    with bs show "\<exists>bs. struct_pack_I (registers s ! nat rd) = Inr bs \<and>
             exec_str s i = Inr (s\<lparr>memory := slice_store (memory s) (nat ?a) (nat (?a + 4)) bs\<rparr>, None)"
      by blast }
  { assume "\<not> (0 \<le> ?a \<and> ?a \<le> int (length (memory s)) - 4)"
    then show "exec_str s i = Inr (s, Some (OutOfBoundsSTR ?a))"
      by (auto simp: exec_str_def dict_item_def assms(1,2,3) rnv rdv Let_def) }
qed

lemma branch_total:
  assumes "operands i ''offset'' \<noteq> None"
  shows "\<exists>v. dict_item (operands i) ''offset'' = Inr v"
  using assms by (auto simp: dict_item_def)

lemma exec_ldr_total:
  assumes "operands i ''rd'' \<noteq> None" "operands i ''rn'' \<noteq> None" "operands i ''offset'' \<noteq> None"
    "reg_fields_ok i" "length (registers s) = 16"
  shows "\<exists>s' r. exec_ldr s i = Inr (s', r)"
proof -
  obtain rd rn off where k: "operands i ''rd'' = Some rd" "operands i ''rn'' = Some rn"
    "operands i ''offset'' = Some off" using assms(1,2,3) by blast
  have b: "0 \<le> rd \<and> rd < 16" "0 \<le> rn \<and> rn < 16"
    using reg_field[OF assms(4) k(1)] reg_field[OF assms(4) k(2)] by simp_all
  show ?thesis using exec_ldr_result[OF k b assms(5)] by blast
qed

lemma exec_str_total:
  assumes "operands i ''rd'' \<noteq> None" "operands i ''rn'' \<noteq> None" "operands i ''offset'' \<noteq> None"
    "reg_fields_ok i" "regs_ok s"
  shows "\<exists>s' r. exec_str s i = Inr (s', r)"
proof -
  obtain rd rn off where k: "operands i ''rd'' = Some rd" "operands i ''rn'' = Some rn"
    "operands i ''offset'' = Some off" using assms(1,2,3) by blast
  have b: "0 \<le> rd \<and> rd < 16" "0 \<le> rn \<and> rn < 16"
    using reg_field[OF assms(4) k(1)] reg_field[OF assms(4) k(2)] by simp_all
  show ?thesis using exec_str_result[OF k b assms(5)] by blast
qed

text \<open>The dispatch of \<open>execute_instruction\<close>, one kind at a time.\<close>

lemma execute_MOV:
  "execute_conditionally s i \<Longrightarrow> instruction_type i = Some ''MOV'' \<Longrightarrow>
   execute_instruction s i = exec_move s i"
  by (simp add: execute_instruction_def Let_def)

lemma execute_LDR:
  "execute_conditionally s i \<Longrightarrow> instruction_type i = Some ''LDR'' \<Longrightarrow>
   execute_instruction s i = exec_ldr s i"
  by (simp add: execute_instruction_def Let_def)

lemma execute_STR:
  "execute_conditionally s i \<Longrightarrow> instruction_type i = Some ''STR'' \<Longrightarrow>
   execute_instruction s i = exec_str s i"
  by (simp add: execute_instruction_def Let_def)

lemma execute_ADD:
  "execute_conditionally s i \<Longrightarrow> instruction_type i = Some ''ADD'' \<Longrightarrow>
   execute_instruction s i = exec_add s i"
  by (simp add: execute_instruction_def Let_def)

lemma execute_SUB:
  "execute_conditionally s i \<Longrightarrow> instruction_type i = Some ''SUB'' \<Longrightarrow>
   execute_instruction s i = exec_sub s i"
  by (simp add: execute_instruction_def Let_def)

lemma execute_MUL:
  "execute_conditionally s i \<Longrightarrow> instruction_type i = Some ''MUL'' \<Longrightarrow>
   execute_instruction s i = exec_mul s i"
  by (simp add: execute_instruction_def Let_def)

lemma execute_AND:
  "execute_conditionally s i \<Longrightarrow> instruction_type i = Some ''AND'' \<Longrightarrow>
   execute_instruction s i = exec_logic (AND) s i"
  by (simp add: execute_instruction_def Let_def)

lemma execute_ORR:
  "execute_conditionally s i \<Longrightarrow> instruction_type i = Some ''ORR'' \<Longrightarrow>
   execute_instruction s i = exec_logic (OR) s i"
  by (simp add: execute_instruction_def Let_def)

lemma execute_CMP:
  "execute_conditionally s i \<Longrightarrow> instruction_type i = Some ''CMP'' \<Longrightarrow>
   execute_instruction s i = exec_cmp s i"
  by (simp add: execute_instruction_def Let_def)

lemma execute_SUBNE:
  "execute_conditionally s i \<Longrightarrow> instruction_type i = Some ''SUBNE'' \<Longrightarrow>
   execute_instruction s i = exec_sub s i"
  by (simp add: execute_instruction_def Let_def)

lemma execute_ADDEQ:
  "execute_conditionally s i \<Longrightarrow> instruction_type i = Some ''ADDEQ'' \<Longrightarrow>
   execute_instruction s i = exec_add s i"
  by (simp add: execute_instruction_def Let_def)

lemma execute_LSL:
  "execute_conditionally s i \<Longrightarrow> instruction_type i = Some ''LSL'' \<Longrightarrow>
   execute_instruction s i = exec_move s i"
  by (simp add: execute_instruction_def Let_def)

lemma execute_LSR:
  "execute_conditionally s i \<Longrightarrow> instruction_type i = Some ''LSR'' \<Longrightarrow>
   execute_instruction s i = exec_move s i"
  by (simp add: execute_instruction_def Let_def)

lemma execute_ASR:
  "execute_conditionally s i \<Longrightarrow> instruction_type i = Some ''ASR'' \<Longrightarrow>
   execute_instruction s i = exec_move s i"
  by (simp add: execute_instruction_def Let_def)

lemma execute_ROR:
  "execute_conditionally s i \<Longrightarrow> instruction_type i = Some ''ROR'' \<Longrightarrow>
   execute_instruction s i = exec_move s i"
  by (simp add: execute_instruction_def Let_def)

lemma execute_B:
  "execute_conditionally s i \<Longrightarrow> instruction_type i = Some ''B'' \<Longrightarrow>
   execute_instruction s i = then_do (dict_item (operands i) ''offset'') (\<lambda>offset. Inr (s, Some (Branch (Some ''B'') offset)))"
  by (simp add: execute_instruction_def Let_def)

lemma execute_BL:
  "execute_conditionally s i \<Longrightarrow> instruction_type i = Some ''BL'' \<Longrightarrow>
   execute_instruction s i = then_do (dict_item (operands i) ''offset'') (\<lambda>offset. Inr (s, Some (Branch (Some ''BL'') offset)))"
  by (simp add: execute_instruction_def Let_def)

lemma execute_skipped:
  "\<not> execute_conditionally s i \<Longrightarrow>
   execute_instruction s i = Inr (s, Some (Skipped (instruction_type i)))"
  by (simp add: execute_instruction_def Let_def)

lemma execute_unknown:
  assumes "execute_conditionally s i" "instruction_type i \<notin> Some ` set executed_kinds"
  shows "execute_instruction s i = Inr (s, Some (UnknownType (instruction_type i)))"
  using assms by (simp add: execute_instruction_def executed_kinds_def Let_def)

lemma execute_total:
  assumes "operands_present i" "reg_fields_ok i" "regs_ok s"
  shows "\<exists>s' r. execute_instruction s i = Inr (s', r)"
proof (cases "execute_conditionally s i")
  case False
  then show ?thesis by (simp add: execute_skipped)
next
  case gate: True
  have len: "length (registers s) = 16" using assms(3) by (simp add: regs_ok_def)
  show ?thesis
  proof (cases "instruction_type i \<in> Some ` set executed_kinds")
    case False
    then show ?thesis using execute_unknown[OF gate] by simp
  next
    case True
    then obtain t where t: "instruction_type i = Some t" "t \<in> set executed_kinds" by auto
    have keys: "list_all (\<lambda>k. operands i k \<noteq> None) (needed_keys t)"
      using assms(1) t(1) by (simp add: operands_present_def)
    from t(2) have "t = ''MOV'' \<or> t = ''LDR'' \<or> t = ''STR'' \<or> t = ''ADD'' \<or> t = ''SUB'' \<or> t = ''MUL'' \<or> t = ''AND'' \<or> t = ''ORR'' \<or> t = ''CMP'' \<or> t = ''SUBNE'' \<or> t = ''ADDEQ'' \<or> t = ''LSL'' \<or> t = ''LSR'' \<or> t = ''ASR'' \<or> t = ''ROR'' \<or> t = ''B'' \<or> t = ''BL''"
      by (simp add: executed_kinds_def)
    then show ?thesis
    proof (elim disjE)
      assume kMOV: "t = ''MOV''"
      with t(1) have ty: "instruction_type i = Some ''MOV''" by simp
      show ?thesis using keys[unfolded kMOV] exec_move_total[OF _ assms(2) len] by (simp add: execute_MOV[OF gate ty] needed_keys_def)
    next
      assume kLDR: "t = ''LDR''"
      with t(1) have ty: "instruction_type i = Some ''LDR''" by simp
      show ?thesis using keys[unfolded kLDR] exec_ldr_total[OF _ _ _ assms(2) len] by (simp add: execute_LDR[OF gate ty] needed_keys_def)
    next
      assume kSTR: "t = ''STR''"
      with t(1) have ty: "instruction_type i = Some ''STR''" by simp
      show ?thesis using keys[unfolded kSTR] exec_str_total[OF _ _ _ assms(2,3)] by (simp add: execute_STR[OF gate ty] needed_keys_def)
    next
      assume kADD: "t = ''ADD''"
      with t(1) have ty: "instruction_type i = Some ''ADD''" by simp
      show ?thesis using keys[unfolded kADD] exec_arith_total(1)[OF _ _ assms(2) len] by (simp add: execute_ADD[OF gate ty] needed_keys_def)
    next
      assume kSUB: "t = ''SUB''"
      with t(1) have ty: "instruction_type i = Some ''SUB''" by simp
      show ?thesis using keys[unfolded kSUB] exec_arith_total(2)[OF _ _ assms(2) len] by (simp add: execute_SUB[OF gate ty] needed_keys_def)
    next
      assume kMUL: "t = ''MUL''"
      with t(1) have ty: "instruction_type i = Some ''MUL''" by simp
      show ?thesis using keys[unfolded kMUL] exec_mul_total[OF _ _ _ assms(2) len] by (simp add: execute_MUL[OF gate ty] needed_keys_def)
    next
      assume kAND: "t = ''AND''"
      with t(1) have ty: "instruction_type i = Some ''AND''" by simp
      show ?thesis using keys[unfolded kAND] exec_arith_total(3)[OF _ _ assms(2) len] by (simp add: execute_AND[OF gate ty] needed_keys_def)
    next
      assume kORR: "t = ''ORR''"
      with t(1) have ty: "instruction_type i = Some ''ORR''" by simp
      show ?thesis using keys[unfolded kORR] exec_arith_total(3)[OF _ _ assms(2) len] by (simp add: execute_ORR[OF gate ty] needed_keys_def)
    next
      assume kCMP: "t = ''CMP''"
      with t(1) have ty: "instruction_type i = Some ''CMP''" by simp
      show ?thesis using keys[unfolded kCMP] exec_cmp_total[OF _ assms(2) len] by (simp add: execute_CMP[OF gate ty] needed_keys_def)
    next
      assume kSUBNE: "t = ''SUBNE''"
      with t(1) have ty: "instruction_type i = Some ''SUBNE''" by simp
      show ?thesis using keys[unfolded kSUBNE] exec_arith_total(2)[OF _ _ assms(2) len] by (simp add: execute_SUBNE[OF gate ty] needed_keys_def)
    next
      assume kADDEQ: "t = ''ADDEQ''"
      with t(1) have ty: "instruction_type i = Some ''ADDEQ''" by simp
      show ?thesis using keys[unfolded kADDEQ] exec_arith_total(1)[OF _ _ assms(2) len] by (simp add: execute_ADDEQ[OF gate ty] needed_keys_def)
    next
      assume kLSL: "t = ''LSL''"
      with t(1) have ty: "instruction_type i = Some ''LSL''" by simp
      show ?thesis using keys[unfolded kLSL] exec_move_total[OF _ assms(2) len] by (simp add: execute_LSL[OF gate ty] needed_keys_def)
    next
      assume kLSR: "t = ''LSR''"
      with t(1) have ty: "instruction_type i = Some ''LSR''" by simp
      show ?thesis using keys[unfolded kLSR] exec_move_total[OF _ assms(2) len] by (simp add: execute_LSR[OF gate ty] needed_keys_def)
    next
      assume kASR: "t = ''ASR''"
      with t(1) have ty: "instruction_type i = Some ''ASR''" by simp
      show ?thesis using keys[unfolded kASR] exec_move_total[OF _ assms(2) len] by (simp add: execute_ASR[OF gate ty] needed_keys_def)
    next
      assume kROR: "t = ''ROR''"
      with t(1) have ty: "instruction_type i = Some ''ROR''" by simp
      show ?thesis using keys[unfolded kROR] exec_move_total[OF _ assms(2) len] by (simp add: execute_ROR[OF gate ty] needed_keys_def)
    next
      assume kB: "t = ''B''"
      with t(1) have ty: "instruction_type i = Some ''B''" by simp
      show ?thesis using keys[unfolded kB] by (auto simp: execute_B[OF gate ty] needed_keys_def dict_item_def)
    next
      assume kBL: "t = ''BL''"
      with t(1) have ty: "instruction_type i = Some ''BL''" by simp
      show ?thesis using keys[unfolded kBL] by (auto simp: execute_BL[OF gate ty] needed_keys_def dict_item_def)
    qed
  qed
qed

lemma run_total:
  assumes "regs_ok s"
  shows "\<exists>i s' r. decode_word w = Inr i \<and> operands_present i \<and> reg_fields_ok i \<and>
           cmp_sets_flags i \<and> execute_instruction s i = Inr (s', r)"
proof -
  obtain i where i: "decode_word w = Inr i" "operands_present i" "reg_fields_ok i" "cmp_sets_flags i"
    using decode_word_wf by blast
  with execute_total[OF i(2,3) assms] show ?thesis by blast
qed

section \<open>Properties of a decode-and-execute step\<close>

lemma regs_ok_init: "regs_ok ARMCpu_init"
  by (simp add: regs_ok_def ARMCpu_init_def list_all_iff)

lemmas decode_simps = decode_word_def decode_def decode_data_processing_def
  ARMInstruction_init_def shift_alias_def opcode_kind_def condition_rename_def
  py_rshift_def py_lshift_def then_do_def

lemmas execute_simps = execute_instruction_def execute_conditionally_def exec_move_def
  exec_ldr_def exec_str_def exec_add_def exec_sub_def exec_cmp_def exec_mul_def exec_logic_def
  get_operand2_def actual_shift_amount_def list_item_def list_pos_def list_store_def
  dict_item_def update_flags_def sub_flags_def ARMCpu_init_def

text \<open>Memory keeps its size, and an access that is not rejected lies inside it.\<close>

lemma struct_pack_I_length: "struct_pack_I v = Inr bs \<Longrightarrow> length bs = 4"
  by (auto simp: struct_pack_I_def split: if_splits)

lemma exec_str_length:
  "exec_str s i = Inr (s', r) \<Longrightarrow> length (memory s') = length (memory s)"
  unfolding exec_str_def Let_def
  by (auto simp: then_do_eq_Inr slice_store_def dest!: struct_pack_I_length split: if_splits)

lemma exec_memory:
  "exec_move s i = Inr (s', r) \<Longrightarrow> memory s' = memory s"
  "exec_add s i = Inr (s', r) \<Longrightarrow> memory s' = memory s"
  "exec_sub s i = Inr (s', r) \<Longrightarrow> memory s' = memory s"
  "exec_mul s i = Inr (s', r) \<Longrightarrow> memory s' = memory s"
  "exec_logic f s i = Inr (s', r) \<Longrightarrow> memory s' = memory s"
  "exec_cmp s i = Inr (s', r) \<Longrightarrow> memory s' = memory s"
  "exec_ldr s i = Inr (s', r) \<Longrightarrow> memory s' = memory s"
  using exec_move_effect[of s i s' r] exec_add_effect[of s i s' r] exec_sub_effect[of s i s' r]
    exec_mul_effect[of s i s' r] exec_logic_effect[of f s i s' r] exec_cmp_effect[of s i s' r]
    exec_ldr_effect[of s i s' r]
  by (auto simp: writes_rd_def)

lemma execute_memory_length:
  assumes "execute_instruction s i = Inr (s', r)"
  shows "length (memory s') = length (memory s)"
  using assms unfolding execute_instruction_def Let_def
  by (auto simp: then_do_eq_Inr split: if_splits dest: exec_memory exec_str_length)

lemma accessed_in_bounds:
  assumes "regs_ok s" "operands_present i" "reg_fields_ok i"
    and "instruction_type i = Some ''LDR'' \<or> instruction_type i = Some ''STR''"
    and "execute_instruction s i = Inr (s', None)"
  shows "\<exists>rn offset. operands i ''rn'' = Some rn \<and> operands i ''offset'' = Some offset \<and>
           0 \<le> registers s ! nat rn + offset \<and>
           registers s ! nat rn + offset + 4 \<le> int (length (memory s))"
proof -
  have gate: "execute_conditionally s i"
    using assms(5) execute_skipped[of s i] by auto
  have len: "length (registers s) = 16" using assms(1) by (simp add: regs_ok_def)
  have "list_all (\<lambda>k. operands i k \<noteq> None) [''rd'', ''rn'', ''offset'']"
    using assms(2,4) by (auto simp: operands_present_def needed_keys_def)
  then obtain rd rn off where k: "operands i ''rd'' = Some rd" "operands i ''rn'' = Some rn"
    "operands i ''offset'' = Some off" by auto
  have b: "0 \<le> rd \<and> rd < 16" "0 \<le> rn \<and> rn < 16"
    using reg_field[OF assms(3) k(1)] reg_field[OF assms(3) k(2)] by simp_all
  have "0 \<le> registers s ! nat rn + off \<and> registers s ! nat rn + off \<le> int (length (memory s)) - 4"
  proof (rule ccontr)
    assume n: "\<not> (0 \<le> registers s ! nat rn + off \<and>
                  registers s ! nat rn + off \<le> int (length (memory s)) - 4)"
    from assms(4) show False
    proof
      assume t: "instruction_type i = Some ''LDR''"
      show False using exec_ldr_result(2)[OF k b len n] assms(5)
        by (simp add: execute_LDR[OF gate t])
    next
      assume t: "instruction_type i = Some ''STR''"
      show False using exec_str_result(2)[OF k b assms(1) n] assms(5)
        by (simp add: execute_STR[OF gate t])
    qed
  qed
  then show ?thesis using k by auto
qed

text \<open>
  C9. For every word \<open>w\<close> and every state whose sixteen registers hold values in
  \<open>[0, 2^32)\<close>, \<open>decode\<close> returns a record and \<open>execute_instruction\<close> on it returns a
  state and raises nothing (no KeyError, IndexError, ValueError or struct.error): every
  operand key the executor reads for the record's kind is present and every register
  number in the record is in 0..15. Every memory slice it touches is fully in bounds: the
  memory has the same size afterwards, and when an LDR or STR is performed (nothing is
  reported) its four bytes \<open>address .. address + 3\<close> lie inside the memory.
\<close>

theorem execute_never_raises:
  assumes "regs_ok s"
  shows "\<exists>i s' r. decode_word w = Inr i \<and> operands_present i \<and> reg_fields_ok i \<and>
           execute_instruction s i = Inr (s', r) \<and>
           length (memory s') = length (memory s) \<and>
           ((instruction_type i = Some ''LDR'' \<or> instruction_type i = Some ''STR'') \<and> r = None
              \<longrightarrow> (\<exists>rn offset. operands i ''rn'' = Some rn \<and> operands i ''offset'' = Some offset \<and>
                     0 \<le> registers s ! nat rn + offset \<and>
                     registers s ! nat rn + offset + 4 \<le> int (length (memory s))))"
proof -
  obtain i s' r where d: "decode_word w = Inr i" and p: "operands_present i"
    and f: "reg_fields_ok i" and e: "execute_instruction s i = Inr (s', r)"
    using run_total[OF assms, of w] by blast
  have m: "length (memory s') = length (memory s)" by (rule execute_memory_length[OF e])
  have "\<exists>rn offset. operands i ''rn'' = Some rn \<and> operands i ''offset'' = Some offset \<and>
           0 \<le> registers s ! nat rn + offset \<and>
           registers s ! nat rn + offset + 4 \<le> int (length (memory s))"
    if "instruction_type i = Some ''LDR'' \<or> instruction_type i = Some ''STR''" "r = None"
    using accessed_in_bounds[OF assms p f that(1)] e that(2) by simp
  with d p f e m show ?thesis by blast
qed

theorem execute_never_raises_witness:
  "regs_ok (ARMCpu_init\<lparr>registers := [1020, 7, 0, 0, 0, 0, 0, 0, 0, 0, 0, 0, 0, 0, 0, 0]\<rparr>) \<and>
   (\<exists>i s' r. decode_word 0xE5801000 = Inr i \<and> operands_present i \<and> reg_fields_ok i \<and>
      execute_instruction
        (ARMCpu_init\<lparr>registers := [1020, 7, 0, 0, 0, 0, 0, 0, 0, 0, 0, 0, 0, 0, 0, 0]\<rparr>) i
        = Inr (s', r) \<and>
      instruction_type i = Some ''STR'' \<and> r = None \<and>
      length (memory s') = length (memory ARMCpu_init) \<and>
      (\<exists>rn offset. operands i ''rn'' = Some rn \<and> operands i ''offset'' = Some offset \<and>
         0 \<le> [1020, 7, 0, 0, 0, 0, 0, 0, 0, 0, 0, 0, 0, 0, 0, 0] ! nat rn + offset \<and>
         [1020, 7, 0, 0, 0, 0, 0, 0, 0, 0, 0, 0, 0, 0, 0, 0] ! nat rn + offset + 4
           \<le> int (length (memory ARMCpu_init))))"
proof -
  let ?s = "ARMCpu_init\<lparr>registers := [1020, 7, 0, 0, 0, 0, 0, 0, 0, 0, 0, 0, 0, 0, 0, 0]\<rparr>"
  let ?i = "\<lparr>binary_word = 0xE5801000, instruction_type = Some ''STR'', opcode = None,
      operands = [''rd'' \<mapsto> 1, ''rn'' \<mapsto> 0, ''offset'' \<mapsto> 0],
      condition_code = Some 14, set_flags = False\<rparr>"
  have h: "regs_ok ?s" by (simp add: regs_ok_def)
  have d: "decode_word 0xE5801000 = Inr ?i" by (simp add: decode_simps)
  have e: "\<exists>t. execute_instruction ?s ?i = Inr (t, None)"
    by (simp add: execute_simps struct_pack_I_def)
  from execute_never_raises [OF h, of "0xE5801000"] obtain i s' r where
    1: "decode_word 0xE5801000 = Inr i" "operands_present i" "reg_fields_ok i"
       "execute_instruction ?s i = Inr (s', r)" "length (memory s') = length (memory ?s)"
    and 2: "(instruction_type i = Some ''LDR'' \<or> instruction_type i = Some ''STR'') \<and> r = None
              \<longrightarrow> (\<exists>rn offset. operands i ''rn'' = Some rn \<and> operands i ''offset'' = Some offset \<and>
                     0 \<le> registers ?s ! nat rn + offset \<and>
                     registers ?s ! nat rn + offset + 4 \<le> int (length (memory ?s)))"
    by blast
  from 1(1) d have i: "i = ?i" by simp
  from e 1(4) have r: "r = None" unfolding i by auto
  have t: "instruction_type i = Some ''STR''" unfolding i by simp
  from 2 t r have "\<exists>rn offset. operands i ''rn'' = Some rn \<and> operands i ''offset'' = Some offset \<and>
                     0 \<le> registers ?s ! nat rn + offset \<and>
                     registers ?s ! nat rn + offset + 4 \<le> int (length (memory ?s))" by blast
  with h 1 t r show ?thesis by auto
qed

text \<open>
  C10. The initial register file is sixteen zeros, and if all sixteen registers hold
  values in \<open>[0, 2^32)\<close> before a decoded instruction is executed, execution returns a
  state whose sixteen registers again hold values in \<open>[0, 2^32)\<close>.
\<close>

theorem registers_stay_32bit:
  "regs_ok ARMCpu_init \<and>
   (regs_ok s \<longrightarrow>
      (\<exists>i s' r. decode_word w = Inr i \<and> execute_instruction s i = Inr (s', r) \<and> regs_ok s'))"
proof -
  have "\<exists>i s' r. decode_word w = Inr i \<and> execute_instruction s i = Inr (s', r) \<and> regs_ok s'"
    if ok: "regs_ok s"
  proof -
    obtain i s' r where "decode_word w = Inr i" "execute_instruction s i = Inr (s', r)"
      using run_total[OF ok, of w] by blast
    with execute_regs_ok[OF _ ok] show ?thesis by blast
  qed
  with regs_ok_init show ?thesis by blast
qed

theorem registers_stay_32bit_witness:
  "regs_ok (ARMCpu_init\<lparr>registers := [0xFFFFFFFF, 0xFFFFFFFF, 0, 0, 0, 0, 0, 0, 0, 0, 0, 0, 0, 0, 0, 0]\<rparr>) \<and>
   (\<exists>i s' r. decode_word 0xE0802001 = Inr i \<and>
      execute_instruction
        (ARMCpu_init\<lparr>registers := [0xFFFFFFFF, 0xFFFFFFFF, 0, 0, 0, 0, 0, 0, 0, 0, 0, 0, 0, 0, 0, 0]\<rparr>) i
        = Inr (s', r) \<and> regs_ok s')"
proof -
  let ?s = "ARMCpu_init\<lparr>registers := [0xFFFFFFFF, 0xFFFFFFFF, 0, 0, 0, 0, 0, 0, 0, 0, 0, 0, 0, 0, 0, 0]\<rparr>"
  have h: "regs_ok ?s" by (simp add: regs_ok_def)
  from registers_stay_32bit [of ?s "0xE0802001"] h show ?thesis by blast
qed

text \<open>
  C5. An instruction whose \<open>set_flags\<close> is false and whose kind is not CMP leaves the four
  flags N, Z, C, V as they were; and the decoder sets \<open>set_flags\<close> on every record of kind
  CMP.
\<close>

theorem flags_only_when_requested:
  "(execute_instruction s i = Inr (s', r) \<and> \<not> set_flags i \<and> instruction_type i \<noteq> Some ''CMP''
      \<longrightarrow> cpsr s' = cpsr s) \<and>
   (\<exists>j. decode_word w = Inr j \<and> (instruction_type j = Some ''CMP'' \<longrightarrow> set_flags j))"
proof -
  have "cpsr s' = cpsr s"
    if "execute_instruction s i = Inr (s', r)" "\<not> set_flags i" "instruction_type i \<noteq> Some ''CMP''"
    using execute_effect[OF that(1)] that(2,3) by simp
  moreover have "\<exists>j. decode_word w = Inr j \<and> (instruction_type j = Some ''CMP'' \<longrightarrow> set_flags j)"
    using decode_word_wf[of w] by (auto simp: cmp_sets_flags_def)
  ultimately show ?thesis by blast
qed

theorem flags_only_when_requested_witness:
  "execute_instruction ARMCpu_init
     \<lparr>binary_word = 0xE3A00010, instruction_type = Some ''MOV'', opcode = Some 13,
      operands = [''rd'' \<mapsto> 0, ''rn'' \<mapsto> 0, ''operand2'' \<mapsto> 16],
      condition_code = Some 14, set_flags = False\<rparr>
     = Inr (ARMCpu_init\<lparr>registers := (registers ARMCpu_init)[0 := 16]\<rparr>, None) \<and>
   cpsr (ARMCpu_init\<lparr>registers := (registers ARMCpu_init)[0 := 16]\<rparr>) = cpsr ARMCpu_init \<and>
   (\<exists>j. decode_word 0xE1500005 = Inr j \<and> instruction_type j = Some ''CMP'' \<and> set_flags j)"
proof -
  let ?i = "\<lparr>binary_word = 0xE3A00010, instruction_type = Some ''MOV'', opcode = Some 13,
      operands = [''rd'' \<mapsto> 0, ''rn'' \<mapsto> 0, ''operand2'' \<mapsto> 16],
      condition_code = Some 14, set_flags = False\<rparr>"
  let ?s' = "ARMCpu_init\<lparr>registers := (registers ARMCpu_init)[0 := 16]\<rparr>"
  have e: "execute_instruction ARMCpu_init ?i = Inr (?s', None)"
    by (simp add: execute_simps)
  have k: "\<not> set_flags ?i" "instruction_type ?i \<noteq> Some ''CMP''" by simp_all
  have c: "\<exists>j. decode_word 0xE1500005 = Inr j \<and> instruction_type j = Some ''CMP''"
    by (simp add: decode_simps)
  from flags_only_when_requested [of ARMCpu_init ?i ?s' None "0xE1500005"] e k c
  show ?thesis by auto
qed

section \<open>The condition gate\<close>

lemma exec_reports:
  "exec_move s i = Inr (s', r) \<Longrightarrow> r = None"
  "exec_add s i = Inr (s', r) \<Longrightarrow> r = None"
  "exec_sub s i = Inr (s', r) \<Longrightarrow> r = None"
  "exec_mul s i = Inr (s', r) \<Longrightarrow> r = None"
  "exec_logic f s i = Inr (s', r) \<Longrightarrow> r = None"
  "exec_cmp s i = Inr (s', r) \<Longrightarrow> r = None"
  "exec_ldr s i = Inr (s', r) \<Longrightarrow> r = None \<or> (\<exists>a. r = Some (OutOfBoundsLDR a))"
  "exec_str s i = Inr (s', r) \<Longrightarrow> r = None \<or> (\<exists>a. r = Some (OutOfBoundsSTR a))"
  unfolding exec_move_def exec_add_def exec_sub_def exec_mul_def exec_logic_def exec_cmp_def
    exec_ldr_def exec_str_def Let_def
  by (auto simp: then_do_eq_Inr split: if_splits)

lemma execute_not_skipped:
  assumes "execute_conditionally s i" "execute_instruction s i = Inr (s', r)"
  shows "r \<noteq> Some (Skipped t)"
  using assms unfolding execute_instruction_def Let_def
  by (auto simp: then_do_eq_Inr split: if_splits dest: exec_reports)

text \<open>Nothing the branches read depends on the condition code.\<close>

lemma get_operand2_cc:
  "get_operand2 s (i\<lparr>condition_code := c\<rparr>) = get_operand2 s i"
  by (simp add: get_operand2_def actual_shift_amount_def cong: option.case_cong if_cong)

lemma exec_cc:
  "exec_move s (i\<lparr>condition_code := c\<rparr>) = exec_move s i"
  "exec_ldr s (i\<lparr>condition_code := c\<rparr>) = exec_ldr s i"
  "exec_str s (i\<lparr>condition_code := c\<rparr>) = exec_str s i"
  "exec_add s (i\<lparr>condition_code := c\<rparr>) = exec_add s i"
  "exec_sub s (i\<lparr>condition_code := c\<rparr>) = exec_sub s i"
  "exec_mul s (i\<lparr>condition_code := c\<rparr>) = exec_mul s i"
  "exec_logic f s (i\<lparr>condition_code := c\<rparr>) = exec_logic f s i"
  "exec_cmp s (i\<lparr>condition_code := c\<rparr>) = exec_cmp s i"
  by (simp_all add: exec_move_def exec_ldr_def exec_str_def exec_add_def exec_sub_def
        exec_mul_def exec_logic_def exec_cmp_def get_operand2_cc cong: option.case_cong if_cong)

lemma execute_cc_independent:
  assumes "execute_conditionally s i" "execute_conditionally s (i\<lparr>condition_code := c\<rparr>)"
  shows "execute_instruction s (i\<lparr>condition_code := c\<rparr>) = execute_instruction s i"
  using assms by (simp add: execute_instruction_def Let_def exec_cc cong: if_cong)

lemma gate_passes_iff:
  "execute_conditionally s i \<longleftrightarrow>
     \<not> ((condition_code i = Some 0 \<and> cpsr_Z (cpsr s) = 0) \<or>
        (condition_code i = Some 1 \<and> cpsr_Z (cpsr s) = 1))"
  by (auto simp: execute_conditionally_def)

text \<open>
  C4. The condition gate fails exactly when \<open>condition_code\<close> is \<open>0b0000\<close> (EQ) and Z is
  0, or \<open>condition_code\<close> is \<open>0b0001\<close> (NE) and Z is 1: in that case the instruction is
  reported as skipped and the state (registers, flags, memory) is returned unchanged. In
  every other case the instruction executes unconditionally: nothing is reported as
  skipped, the outcome is that of the branch of its kind (or the unknown-kind report),
  whatever the condition code and the flags N, C, V, and replacing the condition code by
  any code other than EQ and NE gives the same outcome.
\<close>

theorem condition_gate:
  "((condition_code i = Some 0 \<and> cpsr_Z (cpsr s) = 0) \<or>
    (condition_code i = Some 1 \<and> cpsr_Z (cpsr s) = 1)
      \<longrightarrow> execute_instruction s i = Inr (s, Some (Skipped (instruction_type i)))) \<and>
   (\<not> ((condition_code i = Some 0 \<and> cpsr_Z (cpsr s) = 0) \<or>
        (condition_code i = Some 1 \<and> cpsr_Z (cpsr s) = 1))
      \<longrightarrow> (\<forall>s' t. execute_instruction s i \<noteq> Inr (s', Some (Skipped t))) \<and>
          (instruction_type i \<in> Some ` set [''MOV'', ''LSL'', ''LSR'', ''ASR'', ''ROR'']
             \<longrightarrow> execute_instruction s i = exec_move s i) \<and>
          (instruction_type i = Some ''LDR'' \<longrightarrow> execute_instruction s i = exec_ldr s i) \<and>
          (instruction_type i = Some ''STR'' \<longrightarrow> execute_instruction s i = exec_str s i) \<and>
          (instruction_type i \<in> Some ` set [''ADD'', ''ADDEQ'']
             \<longrightarrow> execute_instruction s i = exec_add s i) \<and>
          (instruction_type i \<in> Some ` set [''SUB'', ''SUBNE'']
             \<longrightarrow> execute_instruction s i = exec_sub s i) \<and>
          (instruction_type i = Some ''MUL'' \<longrightarrow> execute_instruction s i = exec_mul s i) \<and>
          (instruction_type i = Some ''AND'' \<longrightarrow> execute_instruction s i = exec_logic (AND) s i) \<and>
          (instruction_type i = Some ''ORR'' \<longrightarrow> execute_instruction s i = exec_logic (OR) s i) \<and>
          (instruction_type i = Some ''CMP'' \<longrightarrow> execute_instruction s i = exec_cmp s i) \<and>
          (instruction_type i \<in> Some ` set [''B'', ''BL'']
             \<longrightarrow> execute_instruction s i =
                   then_do (dict_item (operands i) ''offset'')
                     (\<lambda>offset. Inr (s, Some (Branch (instruction_type i) offset)))) \<and>
          (instruction_type i \<notin> Some ` set executed_kinds
             \<longrightarrow> execute_instruction s i = Inr (s, Some (UnknownType (instruction_type i)))) \<and>
          (\<forall>c. c \<noteq> Some 0 \<and> c \<noteq> Some 1
             \<longrightarrow> execute_instruction s (i\<lparr>condition_code := c\<rparr>) = execute_instruction s i))"
proof (intro conjI impI)
  assume "(condition_code i = Some 0 \<and> cpsr_Z (cpsr s) = 0) \<or>
          (condition_code i = Some 1 \<and> cpsr_Z (cpsr s) = 1)"
  then have "\<not> execute_conditionally s i" by (simp add: gate_passes_iff)
  then show "execute_instruction s i = Inr (s, Some (Skipped (instruction_type i)))"
    by (rule execute_skipped)
next
  assume "\<not> ((condition_code i = Some 0 \<and> cpsr_Z (cpsr s) = 0) \<or>
             (condition_code i = Some 1 \<and> cpsr_Z (cpsr s) = 1))"
  then have g: "execute_conditionally s i" by (simp add: gate_passes_iff)
  show "\<forall>s' t. execute_instruction s i \<noteq> Inr (s', Some (Skipped t))"
    using execute_not_skipped[OF g] by blast
  show "\<forall>c. c \<noteq> Some 0 \<and> c \<noteq> Some 1
          \<longrightarrow> execute_instruction s (i\<lparr>condition_code := c\<rparr>) = execute_instruction s i"
  proof (intro allI impI)
    fix c :: "int option" assume "c \<noteq> Some 0 \<and> c \<noteq> Some 1"
    then have "execute_conditionally s (i\<lparr>condition_code := c\<rparr>)"
      by (simp add: execute_conditionally_def)
    with g show "execute_instruction s (i\<lparr>condition_code := c\<rparr>) = execute_instruction s i"
      by (rule execute_cc_independent)
  qed
  { assume "instruction_type i \<in> Some ` set [''MOV'', ''LSL'', ''LSR'', ''ASR'', ''ROR'']"
    then show "execute_instruction s i = exec_move s i"
      using execute_MOV[OF g] execute_LSL[OF g] execute_LSR[OF g] execute_ASR[OF g]
        execute_ROR[OF g] by auto }
  { assume "instruction_type i = Some ''LDR''"
    then show "execute_instruction s i = exec_ldr s i" by (rule execute_LDR[OF g]) }
  { assume "instruction_type i = Some ''STR''"
    then show "execute_instruction s i = exec_str s i" by (rule execute_STR[OF g]) }
  { assume "instruction_type i \<in> Some ` set [''ADD'', ''ADDEQ'']"
    then show "execute_instruction s i = exec_add s i"
      using execute_ADD[OF g] execute_ADDEQ[OF g] by auto }
  { assume "instruction_type i \<in> Some ` set [''SUB'', ''SUBNE'']"
    then show "execute_instruction s i = exec_sub s i"
      using execute_SUB[OF g] execute_SUBNE[OF g] by auto }
  { assume "instruction_type i = Some ''MUL''"
    then show "execute_instruction s i = exec_mul s i" by (rule execute_MUL[OF g]) }
  { assume "instruction_type i = Some ''AND''"
    then show "execute_instruction s i = exec_logic (AND) s i" by (rule execute_AND[OF g]) }
  { assume "instruction_type i = Some ''ORR''"
    then show "execute_instruction s i = exec_logic (OR) s i" by (rule execute_ORR[OF g]) }
  { assume "instruction_type i = Some ''CMP''"
    then show "execute_instruction s i = exec_cmp s i" by (rule execute_CMP[OF g]) }
  { assume "instruction_type i \<in> Some ` set [''B'', ''BL'']"
    then show "execute_instruction s i =
                   then_do (dict_item (operands i) ''offset'')
                     (\<lambda>offset. Inr (s, Some (Branch (instruction_type i) offset)))"
      using execute_B[OF g] execute_BL[OF g] by auto }
  { assume "instruction_type i \<notin> Some ` set executed_kinds"
    then show "execute_instruction s i = Inr (s, Some (UnknownType (instruction_type i)))"
      by (rule execute_unknown[OF g]) }
qed


theorem condition_gate_witness:
  "execute_instruction
     (ARMCpu_init\<lparr>registers := [0x10, 0, 0, 0, 0, 3, 0, 0, 0, 0, 0, 0, 0, 0, 0, 0],
                  cpsr := \<lparr>cpsr_N = 0, cpsr_Z = 1, cpsr_C = 0, cpsr_V = 0\<rparr>\<rparr>)
     \<lparr>binary_word = 0x10400005, instruction_type = Some ''SUBNE'', opcode = Some 2,
      operands = [''rd'' \<mapsto> 0, ''rn'' \<mapsto> 0, ''rm'' \<mapsto> 5, ''shift_amount'' \<mapsto> 0,
                  ''shift_type'' \<mapsto> 0],
      condition_code = Some 1, set_flags = False\<rparr>
     = Inr (ARMCpu_init\<lparr>registers := [0x10, 0, 0, 0, 0, 3, 0, 0, 0, 0, 0, 0, 0, 0, 0, 0],
                        cpsr := \<lparr>cpsr_N = 0, cpsr_Z = 1, cpsr_C = 0, cpsr_V = 0\<rparr>\<rparr>,
            Some (Skipped (Some ''SUBNE''))) \<and>
   execute_instruction
     (ARMCpu_init\<lparr>registers := [0x10, 0, 0, 0, 0, 3, 0, 0, 0, 0, 0, 0, 0, 0, 0, 0]\<rparr>)
     \<lparr>binary_word = 0x10400005, instruction_type = Some ''SUBNE'', opcode = Some 2,
      operands = [''rd'' \<mapsto> 0, ''rn'' \<mapsto> 0, ''rm'' \<mapsto> 5, ''shift_amount'' \<mapsto> 0,
                  ''shift_type'' \<mapsto> 0],
      condition_code = Some 1, set_flags = False\<rparr>
     = Inr (ARMCpu_init\<lparr>registers := [0x0D, 0, 0, 0, 0, 3, 0, 0, 0, 0, 0, 0, 0, 0, 0, 0]\<rparr>, None) \<and>
   execute_instruction
     (ARMCpu_init\<lparr>cpsr := \<lparr>cpsr_N = 1, cpsr_Z = 0, cpsr_C = 0, cpsr_V = 0\<rparr>\<rparr>)
     \<lparr>binary_word = 0xA3A00010, instruction_type = Some ''MOV'', opcode = Some 13,
      operands = [''rd'' \<mapsto> 0, ''rn'' \<mapsto> 0, ''operand2'' \<mapsto> 16],
      condition_code = Some 10, set_flags = False\<rparr>
     = Inr (ARMCpu_init\<lparr>registers := (registers ARMCpu_init)[0 := 16],
                        cpsr := \<lparr>cpsr_N = 1, cpsr_Z = 0, cpsr_C = 0, cpsr_V = 0\<rparr>\<rparr>, None)"
proof -
  let ?i = "\<lparr>binary_word = 0x10400005, instruction_type = Some ''SUBNE'', opcode = Some 2,
      operands = [''rd'' \<mapsto> 0, ''rn'' \<mapsto> 0, ''rm'' \<mapsto> 5, ''shift_amount'' \<mapsto> 0,
                  ''shift_type'' \<mapsto> 0],
      condition_code = Some 1, set_flags = False\<rparr>"
  let ?j = "\<lparr>binary_word = 0xA3A00010, instruction_type = Some ''MOV'', opcode = Some 13,
      operands = [''rd'' \<mapsto> 0, ''rn'' \<mapsto> 0, ''operand2'' \<mapsto> 16],
      condition_code = Some 10, set_flags = False\<rparr>"
  let ?s0 = "ARMCpu_init\<lparr>registers := [0x10, 0, 0, 0, 0, 3, 0, 0, 0, 0, 0, 0, 0, 0, 0, 0]\<rparr>"
  let ?s1 = "ARMCpu_init\<lparr>registers := [0x10, 0, 0, 0, 0, 3, 0, 0, 0, 0, 0, 0, 0, 0, 0, 0],
                  cpsr := \<lparr>cpsr_N = 0, cpsr_Z = 1, cpsr_C = 0, cpsr_V = 0\<rparr>\<rparr>"
  let ?s2 = "ARMCpu_init\<lparr>cpsr := \<lparr>cpsr_N = 1, cpsr_Z = 0, cpsr_C = 0, cpsr_V = 0\<rparr>\<rparr>"
  have a: "condition_code ?i = Some 1 \<and> cpsr_Z (cpsr ?s1) = 1" by simp
  have b: "\<not> ((condition_code ?i = Some 0 \<and> cpsr_Z (cpsr ?s0) = 0) \<or>
              (condition_code ?i = Some 1 \<and> cpsr_Z (cpsr ?s0) = 1))"
    by (simp add: ARMCpu_init_def)
  have c: "\<not> ((condition_code ?j = Some 0 \<and> cpsr_Z (cpsr ?s2) = 0) \<or>
              (condition_code ?j = Some 1 \<and> cpsr_Z (cpsr ?s2) = 1))"
    by simp
  have kb: "instruction_type ?i \<in> Some ` set [''SUB'', ''SUBNE'']" by simp
  have kc: "instruction_type ?j \<in> Some ` set [''MOV'', ''LSL'', ''LSR'', ''ASR'', ''ROR'']"
    by simp
  have xb: "exec_sub ?s0 ?i
        = Inr (ARMCpu_init\<lparr>registers := [0x0D, 0, 0, 0, 0, 3, 0, 0, 0, 0, 0, 0, 0, 0, 0, 0]\<rparr>, None)"
    by (simp add: exec_sub_def get_operand2_def actual_shift_amount_def list_item_def
          list_pos_def list_store_def dict_item_def py_lshift_def)
  have xc: "exec_move ?s2 ?j
        = Inr (ARMCpu_init\<lparr>registers := (registers ARMCpu_init)[0 := 16],
                        cpsr := \<lparr>cpsr_N = 1, cpsr_Z = 0, cpsr_C = 0, cpsr_V = 0\<rparr>\<rparr>, None)"
    by (simp add: exec_move_def get_operand2_def list_pos_def list_store_def dict_item_def
          ARMCpu_init_def)
  from condition_gate [of ?i ?s1] a
  have 1: "execute_instruction ?s1 ?i = Inr (?s1, Some (Skipped (instruction_type ?i)))" by blast
  from condition_gate [of ?i ?s0] b kb
  have 2: "execute_instruction ?s0 ?i = exec_sub ?s0 ?i" by blast
  from condition_gate [of ?j ?s2] c kc
  have 3: "execute_instruction ?s2 ?j = exec_move ?s2 ?j" by blast
  from 1 2 3 xb xc show ?thesis by simp
qed

section \<open>Register 15\<close>

lemma execute_branch_inert:
  assumes "instruction_type i = Some ''B'' \<or> instruction_type i = Some ''BL''"
    and "execute_instruction s i = Inr (s', r)"
  shows "s' = s"
proof (cases "execute_conditionally s i")
  case False
  then show ?thesis using assms(2) by (simp add: execute_skipped)
next
  case True
  from assms(1) show ?thesis
  proof
    assume "instruction_type i = Some ''B''"
    then show ?thesis using assms(2) by (auto simp: execute_B[OF True] then_do_eq_Inr)
  next
    assume "instruction_type i = Some ''BL''"
    then show ?thesis using assms(2) by (auto simp: execute_BL[OF True] then_do_eq_Inr)
  qed
qed

text \<open>
  C2, as stated, fails: \<open>MOV R15, #1\<close> (word \<open>0xE3A0F001\<close>) executed from the initial state
  writes 1 to \<open>registers[15]\<close>, which held 0.
\<close>

theorem r15_written_by_mov:
  "run_word ARMCpu_init 0xE3A0F001
     = Inr (ARMCpu_init\<lparr>registers := (registers ARMCpu_init)[15 := 1]\<rparr>, None) \<and>
   registers ARMCpu_init ! 15 = 0 \<and> (registers ARMCpu_init)[15 := 1] ! 15 = 1"
  by (simp add: run_word_def decode_simps execute_simps)

text \<open>When the register file changes, a register-writing branch ran and reported nothing.\<close>

lemma exec_ldr_rejected:
  "exec_ldr s i = Inr (s', r) \<Longrightarrow> r \<noteq> None \<Longrightarrow> s' = s"
  unfolding exec_ldr_def Let_def by (auto simp: then_do_eq_Inr split: if_splits)

lemma execute_changes_registers:
  assumes "execute_instruction s i = Inr (s', r)" "registers s' \<noteq> registers s"
  shows "execute_conditionally s i \<and> instruction_type i \<in> Some ` set register_writing_kinds \<and>
         r = None \<and> writes_rd s i s'"
proof (cases "execute_conditionally s i")
  case False
  then show ?thesis using assms by (simp add: execute_skipped)
next
  case gate: True
  show ?thesis
  proof (cases "instruction_type i \<in> Some ` set executed_kinds")
    case False
    then show ?thesis using assms execute_unknown[OF gate] by simp
  next
    case True
    then obtain t where t: "instruction_type i = Some t" "t \<in> set executed_kinds" by auto
    from t(2) have "t = ''MOV'' \<or> t = ''LDR'' \<or> t = ''STR'' \<or> t = ''ADD'' \<or> t = ''SUB'' \<or> t = ''MUL'' \<or> t = ''AND'' \<or> t = ''ORR'' \<or> t = ''CMP'' \<or> t = ''SUBNE'' \<or> t = ''ADDEQ'' \<or> t = ''LSL'' \<or> t = ''LSR'' \<or> t = ''ASR'' \<or> t = ''ROR'' \<or> t = ''B'' \<or> t = ''BL''"
      by (simp add: executed_kinds_def)
    then show ?thesis
    proof (elim disjE)
      assume k: "t = ''MOV''"
      with t(1) have ty: "instruction_type i = Some ''MOV''" by simp
      from assms(1) have e: "exec_move s i = Inr (s', r)" by (simp add: execute_MOV[OF gate ty])
      show ?thesis using gate ty exec_move_effect[OF e] exec_reports(1)[OF e]
        by (simp add: register_writing_kinds_def)
    next
      assume k: "t = ''LDR''"
      with t(1) have ty: "instruction_type i = Some ''LDR''" by simp
      from assms(1) have e: "exec_ldr s i = Inr (s', r)" by (simp add: execute_LDR[OF gate ty])
      have rn: "r = None" using exec_ldr_rejected[OF e] assms(2) by (cases r) auto
      have wr: "writes_rd s i s'" using exec_ldr_effect[OF e] assms(2) by auto
      show ?thesis using gate ty rn wr by (simp add: register_writing_kinds_def)
    next
      assume k: "t = ''STR''"
      with t(1) have ty: "instruction_type i = Some ''STR''" by simp
      from assms(1) have e: "exec_str s i = Inr (s', r)" by (simp add: execute_STR[OF gate ty])
      show ?thesis using exec_str_effect[OF e] assms(2) by simp
    next
      assume k: "t = ''ADD''"
      with t(1) have ty: "instruction_type i = Some ''ADD''" by simp
      from assms(1) have e: "exec_add s i = Inr (s', r)" by (simp add: execute_ADD[OF gate ty])
      show ?thesis using gate ty exec_add_effect[OF e] exec_reports(2)[OF e]
        by (simp add: register_writing_kinds_def)
    next
      assume k: "t = ''SUB''"
      with t(1) have ty: "instruction_type i = Some ''SUB''" by simp
      from assms(1) have e: "exec_sub s i = Inr (s', r)" by (simp add: execute_SUB[OF gate ty])
      show ?thesis using gate ty exec_sub_effect[OF e] exec_reports(3)[OF e]
        by (simp add: register_writing_kinds_def)
    next
      assume k: "t = ''MUL''"
      with t(1) have ty: "instruction_type i = Some ''MUL''" by simp
      from assms(1) have e: "exec_mul s i = Inr (s', r)" by (simp add: execute_MUL[OF gate ty])
      show ?thesis using gate ty exec_mul_effect[OF e] exec_reports(4)[OF e]
        by (simp add: register_writing_kinds_def)
    next
      assume k: "t = ''AND''"
      with t(1) have ty: "instruction_type i = Some ''AND''" by simp
      from assms(1) have e: "exec_logic (AND) s i = Inr (s', r)" by (simp add: execute_AND[OF gate ty])
      show ?thesis using gate ty exec_logic_effect[OF e] exec_reports(5)[OF e]
        by (simp add: register_writing_kinds_def)
    next
      assume k: "t = ''ORR''"
      with t(1) have ty: "instruction_type i = Some ''ORR''" by simp
      from assms(1) have e: "exec_logic (OR) s i = Inr (s', r)" by (simp add: execute_ORR[OF gate ty])
      show ?thesis using gate ty exec_logic_effect[OF e] exec_reports(5)[OF e]
        by (simp add: register_writing_kinds_def)
    next
      assume k: "t = ''CMP''"
      with t(1) have ty: "instruction_type i = Some ''CMP''" by simp
      from assms(1) have e: "exec_cmp s i = Inr (s', r)" by (simp add: execute_CMP[OF gate ty])
      show ?thesis using exec_cmp_effect[OF e] assms(2) by simp
    next
      assume k: "t = ''SUBNE''"
      with t(1) have ty: "instruction_type i = Some ''SUBNE''" by simp
      from assms(1) have e: "exec_sub s i = Inr (s', r)" by (simp add: execute_SUBNE[OF gate ty])
      show ?thesis using gate ty exec_sub_effect[OF e] exec_reports(3)[OF e]
        by (simp add: register_writing_kinds_def)
    next
      assume k: "t = ''ADDEQ''"
      with t(1) have ty: "instruction_type i = Some ''ADDEQ''" by simp
      from assms(1) have e: "exec_add s i = Inr (s', r)" by (simp add: execute_ADDEQ[OF gate ty])
      show ?thesis using gate ty exec_add_effect[OF e] exec_reports(2)[OF e]
        by (simp add: register_writing_kinds_def)
    next
      assume k: "t = ''LSL''"
      with t(1) have ty: "instruction_type i = Some ''LSL''" by simp
      from assms(1) have e: "exec_move s i = Inr (s', r)" by (simp add: execute_LSL[OF gate ty])
      show ?thesis using gate ty exec_move_effect[OF e] exec_reports(1)[OF e]
        by (simp add: register_writing_kinds_def)
    next
      assume k: "t = ''LSR''"
      with t(1) have ty: "instruction_type i = Some ''LSR''" by simp
      from assms(1) have e: "exec_move s i = Inr (s', r)" by (simp add: execute_LSR[OF gate ty])
      show ?thesis using gate ty exec_move_effect[OF e] exec_reports(1)[OF e]
        by (simp add: register_writing_kinds_def)
    next
      assume k: "t = ''ASR''"
      with t(1) have ty: "instruction_type i = Some ''ASR''" by simp
      from assms(1) have e: "exec_move s i = Inr (s', r)" by (simp add: execute_ASR[OF gate ty])
      show ?thesis using gate ty exec_move_effect[OF e] exec_reports(1)[OF e]
        by (simp add: register_writing_kinds_def)
    next
      assume k: "t = ''ROR''"
      with t(1) have ty: "instruction_type i = Some ''ROR''" by simp
      from assms(1) have e: "exec_move s i = Inr (s', r)" by (simp add: execute_ROR[OF gate ty])
      show ?thesis using gate ty exec_move_effect[OF e] exec_reports(1)[OF e]
        by (simp add: register_writing_kinds_def)
    next
      assume k: "t = ''B''"
      with t(1) have "instruction_type i = Some ''B'' \<or> instruction_type i = Some ''BL''" by simp
      from execute_branch_inert[OF this assms(1)] assms(2) show ?thesis by simp
    next
      assume k: "t = ''BL''"
      with t(1) have "instruction_type i = Some ''B'' \<or> instruction_type i = Some ''BL''" by simp
      from execute_branch_inert[OF this assms(1)] assms(2) show ?thesis by simp
    qed
  qed
qed


text \<open>
  C2, amended. For every decoded record and every state with sixteen 32-bit registers,
  execution returns a state, and register 15 differs from before only if the record's
  destination operand \<open>rd\<close> is 15, the condition gate passes, the kind is one of the
  thirteen register-writing kinds and nothing is reported (so an LDR is in bounds). A B
  or BL record changes nothing at all.
\<close>

theorem r15_written_only_as_rd:
  assumes "regs_ok s"
  shows "\<exists>i s' r. decode_word w = Inr i \<and> execute_instruction s i = Inr (s', r) \<and>
           (registers s' ! 15 \<noteq> registers s ! 15 \<longrightarrow>
              operands i ''rd'' = Some 15 \<and> execute_conditionally s i \<and>
              instruction_type i \<in> Some ` set register_writing_kinds \<and> r = None) \<and>
           (instruction_type i = Some ''B'' \<or> instruction_type i = Some ''BL'' \<longrightarrow> s' = s)"
proof -
  obtain i s' r where d: "decode_word w = Inr i" and f: "reg_fields_ok i"
    and e: "execute_instruction s i = Inr (s', r)"
    using run_total[OF assms, of w] by blast
  have "operands i ''rd'' = Some 15 \<and> execute_conditionally s i \<and>
        instruction_type i \<in> Some ` set register_writing_kinds \<and> r = None"
    if n: "registers s' ! 15 \<noteq> registers s ! 15"
  proof -
    from n have "registers s' \<noteq> registers s" by auto
    from execute_changes_registers[OF e this]
    have g: "execute_conditionally s i"
      and k: "instruction_type i \<in> Some ` set register_writing_kinds"
      and rn: "r = None" and wr: "writes_rd s i s'" by simp_all
    from wr obtain rd v where rd: "operands i ''rd'' = Some rd"
      and st: "list_store (registers s) rd v = Inr (registers s')"
      unfolding writes_rd_def by blast
    have b: "0 \<le> rd \<and> rd < 16" using reg_field[OF f rd] by simp
    have "rd = 15"
    proof (rule ccontr)
      assume "rd \<noteq> 15"
      then have "rd \<noteq> int 15" by simp
      with b list_store_other[OF st, of 15] n show False by simp
    qed
    with rd g k rn show ?thesis by simp
  qed
  moreover have "s' = s" if "instruction_type i = Some ''B'' \<or> instruction_type i = Some ''BL''"
    using execute_branch_inert[OF that e] .
  ultimately show ?thesis using d e by blast
qed

theorem r15_written_only_as_rd_witness:
  "regs_ok ARMCpu_init \<and>
   (\<exists>i s' r. decode_word 0xE3A0F001 = Inr i \<and> execute_instruction ARMCpu_init i = Inr (s', r) \<and>
      registers s' ! 15 \<noteq> registers ARMCpu_init ! 15 \<and>
      operands i ''rd'' = Some 15 \<and> execute_conditionally ARMCpu_init i \<and>
      instruction_type i \<in> Some ` set register_writing_kinds \<and> r = None)"
proof -
  let ?i = "\<lparr>binary_word = 0xE3A0F001, instruction_type = Some ''MOV'', opcode = Some 13,
      operands = [''rd'' \<mapsto> 15, ''rn'' \<mapsto> 0, ''operand2'' \<mapsto> 1],
      condition_code = Some 14, set_flags = False\<rparr>"
  have h: "regs_ok ARMCpu_init" by (rule regs_ok_init)
  have d: "decode_word 0xE3A0F001 = Inr ?i" by (simp add: decode_simps)
  have e: "execute_instruction ARMCpu_init ?i
            = Inr (ARMCpu_init\<lparr>registers := (registers ARMCpu_init)[15 := 1]\<rparr>, None)"
    by (simp add: execute_simps)
  have c: "registers (ARMCpu_init\<lparr>registers := (registers ARMCpu_init)[15 := 1]\<rparr>) ! 15
           \<noteq> registers ARMCpu_init ! 15"
    by (simp add: ARMCpu_init_def)
  from r15_written_only_as_rd [OF h, of "0xE3A0F001"] obtain i s' r where
    1: "decode_word 0xE3A0F001 = Inr i" "execute_instruction ARMCpu_init i = Inr (s', r)"
    and 2: "registers s' ! 15 \<noteq> registers ARMCpu_init ! 15 \<longrightarrow>
              operands i ''rd'' = Some 15 \<and> execute_conditionally ARMCpu_init i \<and>
              instruction_type i \<in> Some ` set register_writing_kinds \<and> r = None"
    by blast
  from 1(1) d have i: "i = ?i" by simp
  with 1(2) e have s': "s' = ARMCpu_init\<lparr>registers := (registers ARMCpu_init)[15 := 1]\<rparr>"
    by simp
  from 2 c have "operands i ''rd'' = Some 15 \<and> execute_conditionally ARMCpu_init i \<and>
              instruction_type i \<in> Some ` set register_writing_kinds \<and> r = None"
    unfolding s' by blast
  with h 1 c show ?thesis unfolding s' by blast
qed

section \<open>Bounds of LDR and STR\<close>

text \<open>
  C3, as stated, fails: the access sits behind the condition gate. \<open>STREQ R1, [R0, #0]\<close>
  (word \<open>0x05801000\<close>) with \<open>R0 = 0\<close> and Z = 0 has the address 0, inside
  \<open>[0, memory_size - 4] = [0, 1020]\<close>, and yet no store is performed: the instruction is
  skipped.
\<close>

theorem store_skipped_in_range:
  "run_word (ARMCpu_init\<lparr>registers := [0, 0xAB, 0, 0, 0, 0, 0, 0, 0, 0, 0, 0, 0, 0, 0, 0]\<rparr>) 0x05801000
     = Inr (ARMCpu_init\<lparr>registers := [0, 0xAB, 0, 0, 0, 0, 0, 0, 0, 0, 0, 0, 0, 0, 0, 0]\<rparr>,
            Some (Skipped (Some ''STR''))) \<and>
   then_do (decode_word 0x05801000) (\<lambda>i. Inr (operands i ''rn'', operands i ''offset''))
     = Inr (Some 0, Some 0) \<and>
   int (length (memory ARMCpu_init)) - 4 = 1020"
  by (simp add: run_word_def decode_simps execute_simps)

text \<open>
  C3, amended. For every decoded LDR or STR record that passes the condition gate and
  every state with sixteen 32-bit registers, with \<open>address = Rn + offset\<close>: if
  \<open>0 \<le> address \<le> memory_size - 4\<close> the access is performed (LDR writes the little-endian
  value of the four bytes at \<open>address\<close> to \<open>Rd\<close>, STR replaces those four bytes by the
  little-endian bytes of \<open>Rd\<close>) and nothing is reported; otherwise the access is rejected:
  it is reported as out of bounds and registers, memory and flags are all unchanged. So
  \<open>memory_size - 4\<close> is accepted and \<open>memory_size - 3\<close> is rejected.
\<close>

theorem load_store_bounds:
  assumes "regs_ok s" and "decode_word w = Inr i"
    and "instruction_type i = Some ''LDR'' \<or> instruction_type i = Some ''STR''"
    and "execute_conditionally s i"
  shows "\<exists>rd rn offset.
     operands i ''rd'' = Some rd \<and> operands i ''rn'' = Some rn \<and>
     operands i ''offset'' = Some offset \<and>
     (0 \<le> registers s ! nat rn + offset \<and>
      registers s ! nat rn + offset \<le> int (length (memory s)) - 4 \<longrightarrow>
        (instruction_type i = Some ''LDR'' \<longrightarrow>
           (\<exists>v. struct_unpack_I (slice (memory s) (nat (registers s ! nat rn + offset))
                                   (nat (registers s ! nat rn + offset + 4))) = Inr v \<and>
                execute_instruction s i = Inr (s\<lparr>registers := (registers s)[nat rd := v]\<rparr>, None))) \<and>
        (instruction_type i = Some ''STR'' \<longrightarrow>
           (\<exists>bs. struct_pack_I (registers s ! nat rd) = Inr bs \<and>
                execute_instruction s i =
                  Inr (s\<lparr>memory := slice_store (memory s) (nat (registers s ! nat rn + offset))
                                      (nat (registers s ! nat rn + offset + 4)) bs\<rparr>, None)))) \<and>
     (\<not> (0 \<le> registers s ! nat rn + offset \<and>
         registers s ! nat rn + offset \<le> int (length (memory s)) - 4) \<longrightarrow>
        execute_instruction s i =
          Inr (s, Some (if instruction_type i = Some ''LDR''
                        then OutOfBoundsLDR (registers s ! nat rn + offset)
                        else OutOfBoundsSTR (registers s ! nat rn + offset))))"
proof -
  have wf: "operands_present i" "reg_fields_ok i"
    using decode_word_wf[of w] assms(2) by auto
  have len: "length (registers s) = 16" using assms(1) by (simp add: regs_ok_def)
  have "list_all (\<lambda>k. operands i k \<noteq> None) [''rd'', ''rn'', ''offset'']"
    using wf(1) assms(3) by (auto simp: operands_present_def needed_keys_def)
  then obtain rd rn off where k: "operands i ''rd'' = Some rd" "operands i ''rn'' = Some rn"
    "operands i ''offset'' = Some off" by auto
  have b: "0 \<le> rd \<and> rd < 16" "0 \<le> rn \<and> rn < 16"
    using reg_field[OF wf(2) k(1)] reg_field[OF wf(2) k(2)] by simp_all
  note ldr = exec_ldr_result[OF k b len] and str = exec_str_result[OF k b assms(1)]
  from assms(3) show ?thesis
  proof
    assume t: "instruction_type i = Some ''LDR''"
    show ?thesis using k ldr t unfolding execute_LDR[OF assms(4) t] by auto
  next
    assume t: "instruction_type i = Some ''STR''"
    show ?thesis using k str t unfolding execute_STR[OF assms(4) t] by auto
  qed
qed


theorem load_store_bounds_witness:
  "execute_instruction
     (ARMCpu_init\<lparr>registers := [1020, 7, 0, 0, 0, 0, 0, 0, 0, 0, 0, 0, 0, 0, 0, 0]\<rparr>)
     \<lparr>binary_word = 0xE5901000, instruction_type = Some ''LDR'', opcode = None,
      operands = [''rd'' \<mapsto> 1, ''rn'' \<mapsto> 0, ''offset'' \<mapsto> 0],
      condition_code = Some 14, set_flags = False\<rparr>
     = Inr (ARMCpu_init\<lparr>registers := [1020, 0, 0, 0, 0, 0, 0, 0, 0, 0, 0, 0, 0, 0, 0, 0]\<rparr>, None) \<and>
   execute_instruction
     (ARMCpu_init\<lparr>registers := [1021, 7, 0, 0, 0, 0, 0, 0, 0, 0, 0, 0, 0, 0, 0, 0]\<rparr>)
     \<lparr>binary_word = 0xE5901000, instruction_type = Some ''LDR'', opcode = None,
      operands = [''rd'' \<mapsto> 1, ''rn'' \<mapsto> 0, ''offset'' \<mapsto> 0],
      condition_code = Some 14, set_flags = False\<rparr>
     = Inr (ARMCpu_init\<lparr>registers := [1021, 7, 0, 0, 0, 0, 0, 0, 0, 0, 0, 0, 0, 0, 0, 0]\<rparr>,
            Some (OutOfBoundsLDR 1021))"
proof -
  let ?i = "\<lparr>binary_word = 0xE5901000, instruction_type = Some ''LDR'', opcode = None,
      operands = [''rd'' \<mapsto> 1, ''rn'' \<mapsto> 0, ''offset'' \<mapsto> 0],
      condition_code = Some 14, set_flags = False\<rparr>"
  let ?a = "ARMCpu_init\<lparr>registers := [1020, 7, 0, 0, 0, 0, 0, 0, 0, 0, 0, 0, 0, 0, 0, 0]\<rparr>"
  let ?b = "ARMCpu_init\<lparr>registers := [1021, 7, 0, 0, 0, 0, 0, 0, 0, 0, 0, 0, 0, 0, 0, 0]\<rparr>"
  have d: "decode_word 0xE5901000 = Inr ?i" by (simp add: decode_simps)
  have k: "instruction_type ?i = Some ''LDR'' \<or> instruction_type ?i = Some ''STR''" by simp
  have oa: "regs_ok ?a" and ob: "regs_ok ?b" by (simp_all add: regs_ok_def)
  have ga: "execute_conditionally ?a ?i" and gb: "execute_conditionally ?b ?i"
    by (simp_all add: execute_conditionally_def)
  have sl: "slice (memory ARMCpu_init) 1020 1024 = [0, 0, 0, 0]"
    by (simp add: slice_def ARMCpu_init_def eval_nat_numeral)
  have u: "struct_unpack_I [0, 0, 0, 0] = Inr 0" by (simp add: struct_unpack_I_def)
  have m: "length (memory ARMCpu_init) = 1024"
    by (simp add: ARMCpu_init_def)
  from load_store_bounds [OF oa d k ga]
  have 1: "execute_instruction ?a ?i = Inr (?a\<lparr>registers := (registers ?a)[1 := 0]\<rparr>, None)"
    by (simp add: m sl u)
  from load_store_bounds [OF ob d k gb]
  have 2: "execute_instruction ?b ?i = Inr (?b, Some (OutOfBoundsLDR 1021))"
    by (simp add: m)
  from 1 2 show ?thesis by simp
qed

end
